theory Spec2Isabelle
  imports Main
begin

section \<open>Python values, strings and dictionaries\<close>

text \<open>
  The service (src/main.py) is a FastAPI application over an Oracle database. Its own
  code is glue: it reads the configuration, owns the global connection pool, runs
  statements through \<open>execute_query\<close> and translates failures into HTTP outcomes.
  The Oracle driver (\<open>oracledb\<close>) and the database behind it are not part of the
  repository; they are a parameter of the model (the record \<open>driver\<close> below), and
  every call the code makes to them is written to a trace.

  Strings are lists of 8-bit characters (the UTF-8 bytes of the Python text).
  \<open>print\<close> is not modelled.
\<close>

datatype val = VNone | VInt int | VStr string | VDatetime int

type_synonym pydict = "(string \<times> val) list"

text \<open>A dict keeps insertion order; assigning to an existing key keeps its position.\<close>

fun dict_set :: "string \<Rightarrow> 'v \<Rightarrow> (string \<times> 'v) list \<Rightarrow> (string \<times> 'v) list" where
  "dict_set k v [] = [(k, v)]"
| "dict_set k v (p # ps) = (if fst p = k then (k, v) # ps else p # dict_set k v ps)"

text \<open>\<open>dict(pairs)\<close> and \<open>{**a, **b}\<close>: the pairs are assigned from left to right.\<close>

fun dict_update :: "(string \<times> 'v) list \<Rightarrow> (string \<times> 'v) list \<Rightarrow> (string \<times> 'v) list" where
  "dict_update d [] = d"
| "dict_update d (p # ps) = dict_update (dict_set (fst p) (snd p) d) ps"

definition dict_of :: "(string \<times> 'v) list \<Rightarrow> (string \<times> 'v) list" where
  "dict_of ps = dict_update [] ps"

definition dict_get :: "(string \<times> 'v) list \<Rightarrow> string \<Rightarrow> 'v option" where
  "dict_get d k = map_of d k"

definition ascii_lowercase :: string where
  "ascii_lowercase = ''abcdefghijklmnopqrstuvwxyz''"

definition ascii_uppercase :: string where
  "ascii_uppercase = ''ABCDEFGHIJKLMNOPQRSTUVWXYZ''"

definition char_upper :: "char \<Rightarrow> char" where
  "char_upper c = (case map_of (zip ascii_lowercase ascii_uppercase) c of Some u \<Rightarrow> u | None \<Rightarrow> c)"

definition char_lower :: "char \<Rightarrow> char" where
  "char_lower c = (case map_of (zip ascii_uppercase ascii_lowercase) c of Some l \<Rightarrow> l | None \<Rightarrow> c)"

text \<open>Text without any byte above 127 is ASCII text.\<close>

definition is_ascii :: "string \<Rightarrow> bool" where
  "is_ascii s = list_all (\<lambda>c. of_char c < (128::nat)) s"

definition startswith :: "string \<Rightarrow> string \<Rightarrow> bool" where
  "startswith s p = (take (length p) s = p)"

text \<open>\<open>sub in s\<close> for strings.\<close>

fun contains :: "string \<Rightarrow> string \<Rightarrow> bool" where
  "contains [] sub = (sub = [])"
| "contains (c # cs) sub = (startswith (c # cs) sub \<or> contains cs sub)"

text \<open>\<open>sep.join(parts)\<close>.\<close>

fun join :: "string \<Rightarrow> string list \<Rightarrow> string" where
  "join sep [] = []"
| "join sep [x] = x"
| "join sep (x # y # ys) = x @ sep @ join sep (y # ys)"

text \<open>Decimal rendering of a status code, as an f-string prints it.\<close>

definition digit_char :: "nat \<Rightarrow> char" where
  "digit_char n = (''0123456789'' ! (n mod 10))"

fun str_nat :: "nat \<Rightarrow> string" where
  "str_nat n = (if n < 10 then [digit_char n] else str_nat (n div 10) @ [digit_char n])"

declare str_nat.simps [simp del]

text \<open>The accented letters of the messages, as UTF-8.\<close>

definition a_tilde :: string where "a_tilde = [CHR 0xC3, CHR 0xA3]"
definition a_acute :: string where "a_acute = [CHR 0xC3, CHR 0xA1]"
definition c_cedil :: string where "c_cedil = [CHR 0xC3, CHR 0xA7]"
definition i_acute :: string where "i_acute = [CHR 0xC3, CHR 0xAD]"
definition o_tilde :: string where "o_tilde = [CHR 0xC3, CHR 0xB5]"

section \<open>Exceptions\<close>

datatype exn =
    DatabaseError int string
  | OracleError string
  | HTTPException nat string
  | AttributeError string
  | TypeError string
  | KeyError string
  | IndexError string
  | SyntaxError string
  | OtherException string

text \<open>
  \<open>DatabaseError code message\<close> is \<open>oracledb.DatabaseError\<close> with its one argument
  \<open>error_obj\<close> (\<open>error_obj.code\<close>, \<open>error_obj.message\<close>); \<open>OracleError\<close> is any other
  \<open>oracledb.Error\<close>; \<open>HTTPException status_code detail\<close> is FastAPI's. All of them
  are subclasses of \<open>Exception\<close>.
\<close>

fun is_oracledb_Error :: "exn \<Rightarrow> bool" where
  "is_oracledb_Error (DatabaseError c m) = True"
| "is_oracledb_Error (OracleError m) = True"
| "is_oracledb_Error e = False"

text \<open>
  \<open>str(e)\<close>, as \<open>f"{e}"\<close> prints it: the message of a driver error, \<open>status: detail\<close>
  for an \<open>HTTPException\<close> (Starlette's \<open>__str__\<close>), the quoted key for a \<open>KeyError\<close>.
\<close>

fun str_exn :: "exn \<Rightarrow> string" where
  "str_exn (DatabaseError c m) = m"
| "str_exn (OracleError m) = m"
| "str_exn (HTTPException c d) = str_nat c @ '': '' @ d"
| "str_exn (AttributeError m) = m"
| "str_exn (TypeError m) = m"
| "str_exn (KeyError k) = [CHR 0x27] @ k @ [CHR 0x27]"
| "str_exn (IndexError m) = m"
| "str_exn (SyntaxError m) = m"
| "str_exn (OtherException m) = m"

section \<open>The driver and the trace of its calls\<close>

text \<open>
  A pool object is named by the position of its creation in the trace, a connection by
  the pool it was acquired from and the position of its acquisition. Each invocation of
  \<open>execute_query\<close> opens one cursor on its connection, so a cursor is named by its
  connection.
\<close>

type_synonym pool_id = nat
type_synonym conn = "pool_id \<times> nat"

datatype bindv = BVal val | BVar

datatype call =
    SessionPool string string string
  | Pool_close pool_id
  | Pool_acquire pool_id
  | Pool_release pool_id conn
  | Conn_cursor conn
  | Cursor_var conn string
  | Cursor_execute conn string "(string \<times> bindv) list"
  | Var_getvalue conn string
  | Conn_commit conn
  | Cursor_fetchone conn
  | Cursor_fetchall conn
  | Cursor_close conn

type_synonym event = "call \<times> exn option"

text \<open>
  The driver answers a call knowing everything that happened before (the trace), so a
  database with state, or a listener that goes away after the third statement, is a
  driver. \<open>raises\<close> is the exception the call ends with, if any; \<open>fetchone\<close>,
  \<open>fetchall\<close>, \<open>description\<close> and \<open>getvalue\<close> are what the call returns when it does
  not raise. \<open>description\<close> is the list of the column names of \<open>cursor.description\<close>,
  read after a fetch that succeeded.

  The last two fields are not Oracle's but Python's: \<open>str.upper\<close> and \<open>str.lower\<close>
  follow the Unicode case mappings, whose tables are not part of the repository either.
  On ASCII text the two methods exchange the letters \<open>a\<close>-\<open>z\<close> and \<open>A\<close>-\<open>Z\<close> and
  leave every other character alone, and that is written out below; on any other text the
  result is whatever \<open>str_upper\<close> and \<open>str_lower\<close> say, and nothing is assumed of them.
\<close>

record driver =
  raises :: "event list \<Rightarrow> call \<Rightarrow> exn option"
  fetchone :: "event list \<Rightarrow> conn \<Rightarrow> val list option"
  fetchall :: "event list \<Rightarrow> conn \<Rightarrow> val list list"
  description :: "event list \<Rightarrow> conn \<Rightarrow> string list"
  getvalue :: "event list \<Rightarrow> conn \<Rightarrow> string \<Rightarrow> val list"
  str_upper :: "string \<Rightarrow> string"
  str_lower :: "string \<Rightarrow> string"

text \<open>\<open>s.upper()\<close> and \<open>s.lower()\<close>.\<close>

definition upper :: "driver \<Rightarrow> string \<Rightarrow> string" where
  "upper d s = (if is_ascii s then map char_upper s else str_upper d s)"

definition lower :: "driver \<Rightarrow> string \<Rightarrow> string" where
  "lower d s = (if is_ascii s then map char_lower s else str_lower d s)"

text \<open>The program state: the global \<open>pool\<close> and the trace.\<close>

record state =
  pool :: "pool_id option"
  trace :: "event list"

definition call_drv :: "driver \<Rightarrow> call \<Rightarrow> state \<Rightarrow> exn option \<times> state" where
  "call_drv d c s = (raises d (trace s) c, s\<lparr>trace := trace s @ [(c, raises d (trace s) c)]\<rparr>)"

section \<open>Configuration and the pool\<close>

text \<open>The module globals read from the environment; \<open>DB_PORT\<close> already has its default.\<close>

record config =
  DB_USER :: "string option"
  DB_PASSWORD :: "string option"
  DB_HOST :: "string option"
  DB_PORT :: string
  DB_SERVICE_NAME :: "string option"

fun truthy_str :: "string option \<Rightarrow> bool" where
  "truthy_str None = False"
| "truthy_str (Some s) = (s \<noteq> [])"

definition DB_DSN :: "config \<Rightarrow> string option" where
  "DB_DSN cfg =
     (case (DB_HOST cfg, DB_SERVICE_NAME cfg) of
        (Some h, Some sn) \<Rightarrow>
          (if h \<noteq> [] \<and> sn \<noteq> [] then Some (h @ '':'' @ DB_PORT cfg @ ''/'' @ sn) else None)
      | _ \<Rightarrow> None)"

text \<open>\<open>all([DB_USER, DB_PASSWORD, DB_DSN])\<close>\<close>

definition config_complete :: "config \<Rightarrow> bool" where
  "config_complete cfg = (truthy_str (DB_USER cfg) \<and> truthy_str (DB_PASSWORD cfg) \<and> truthy_str (DB_DSN cfg))"

text \<open>
  \<open>init_oracle_pool\<close> (lines 49-62). Only \<open>oracledb.Error\<close> is caught; anything else the
  constructor raises leaves the function.
\<close>

definition init_oracle_pool :: "driver \<Rightarrow> config \<Rightarrow> state \<Rightarrow> (exn + unit) \<times> state" where
  "init_oracle_pool d cfg s =
     (case (DB_USER cfg, DB_PASSWORD cfg, DB_DSN cfg) of
        (Some u, Some p, Some dsn) \<Rightarrow>
          (if u = [] \<or> p = [] \<or> dsn = [] then (Inr (), s)
           else (case call_drv d (SessionPool u p dsn) s of
                   (None, s1) \<Rightarrow> (Inr (), s1\<lparr>pool := Some (length (trace s))\<rparr>)
                 | (Some e, s1) \<Rightarrow>
                     (if is_oracledb_Error e then (Inr (), s1\<lparr>pool := None\<rparr>) else (Inl e, s1))))
      | _ \<Rightarrow> (Inr (), s))"

text \<open>The state at import time, and the startup hook (lines 47, 64-66).\<close>

definition initial_state :: state where
  "initial_state = \<lparr>pool = None, trace = []\<rparr>"

definition startup_event :: "driver \<Rightarrow> config \<Rightarrow> state \<Rightarrow> (exn + unit) \<times> state" where
  "startup_event d cfg s = init_oracle_pool d cfg s"

definition msg_pool_nao_inicializado :: string where
  "msg_pool_nao_inicializado =
     ''Servi'' @ c_cedil @ ''o de banco de dados indispon'' @ i_acute @ ''vel (pool n'' @ a_tilde
     @ ''o inicializado). Verifique as configura'' @ c_cedil @ o_tilde
     @ ''es e logs do servidor.''"

text \<open>\<open>get_db_connection\<close>, its \<open>try\<close> block (lines 85-92) first.\<close>

definition pool_acquire :: "driver \<Rightarrow> pool_id \<Rightarrow> state \<Rightarrow> (exn + conn) \<times> state" where
  "pool_acquire d p s =
     (case call_drv d (Pool_acquire p) s of
        (None, s1) \<Rightarrow> (Inr (p, length (trace s)), s1)
      | (Some e, s1) \<Rightarrow>
          (if is_oracledb_Error e
           then (Inl (HTTPException 503 (''Erro ao conectar ao banco de dados: '' @ str_exn e)), s1)
           else (Inl e, s1)))"

definition get_db_connection :: "driver \<Rightarrow> config \<Rightarrow> state \<Rightarrow> (exn + conn) \<times> state" where
  "get_db_connection d cfg s =
     (case pool s of
        Some p \<Rightarrow> pool_acquire d p s
      | None \<Rightarrow>
          (case init_oracle_pool d cfg s of
             (Inl e, s1) \<Rightarrow> (Inl e, s1)
           | (Inr u, s1) \<Rightarrow>
               (case pool s1 of
                  None \<Rightarrow> (Inl (HTTPException 503 msg_pool_nao_inicializado), s1)
                | Some p \<Rightarrow> pool_acquire d p s1)))"

section \<open>The query executor\<close>

text \<open>
  What \<open>execute_query\<close> returns: \<open>None\<close>, a dict, or a list of dicts (the list is what
  line 129 is there to return).
\<close>

datatype qresult = RNone | RDict pydict | RList "pydict list"

text \<open>Truth value of \<open>params\<close> (\<open>Optional[Dict]\<close>) and \<open>params or {}\<close>.\<close>

fun truthy_params :: "pydict option \<Rightarrow> bool" where
  "truthy_params None = False"
| "truthy_params (Some ps) = (ps \<noteq> [])"

fun params_or_empty :: "pydict option \<Rightarrow> pydict" where
  "params_or_empty None = []"
| "params_or_empty (Some ps) = ps"

definition in_binds :: "pydict \<Rightarrow> (string \<times> bindv) list" where
  "in_binds ps = map (\<lambda>kv. (fst kv, BVal (snd kv))) ps"

text \<open>The keys of the output variables (line 106) and \<open>{**params, **out_params}\<close> (line 107).\<close>

definition out_keys :: "pydict \<Rightarrow> string list" where
  "out_keys ps = filter (\<lambda>k. startswith k ''out_'') (map fst ps)"

definition bind_params :: "pydict \<Rightarrow> (string \<times> bindv) list" where
  "bind_params ps = dict_update (in_binds ps) (map (\<lambda>k. (k, BVar)) (out_keys ps))"

text \<open>Line 106: one \<open>cursor.var(oracledb.NUMBER)\<close> for each output key.\<close>

fun make_out_params :: "driver \<Rightarrow> conn \<Rightarrow> string list \<Rightarrow> state \<Rightarrow> (exn + unit) \<times> state" where
  "make_out_params d cn [] s = (Inr (), s)"
| "make_out_params d cn (k # ks) s =
     (case call_drv d (Cursor_var cn k) s of
        (Some e, s1) \<Rightarrow> (Inl e, s1)
      | (None, s1) \<Rightarrow> make_out_params d cn ks s1)"

text \<open>Line 109: \<open>var.getvalue()[0]\<close> for each output key; an empty list raises IndexError.\<close>

fun read_out_params :: "driver \<Rightarrow> conn \<Rightarrow> string list \<Rightarrow> state \<Rightarrow> (exn + pydict) \<times> state" where
  "read_out_params d cn [] s = (Inr [], s)"
| "read_out_params d cn (k # ks) s =
     (case call_drv d (Var_getvalue cn k) s of
        (Some e, s1) \<Rightarrow> (Inl e, s1)
      | (None, s1) \<Rightarrow>
          (case getvalue d (trace s) cn k of
             [] \<Rightarrow> (Inl (IndexError ''list index out of range''), s1)
           | v # vs \<Rightarrow>
               (case read_out_params d cn ks s1 of
                  (Inl e, s2) \<Rightarrow> (Inl e, s2)
                | (Inr r, s2) \<Rightarrow> (Inr ((k, v) # r), s2))))"

text \<open>Lines 123-124: \<open>dict(zip(columns, row))\<close> with lower-cased column names.\<close>

definition row_dict :: "driver \<Rightarrow> string list \<Rightarrow> val list \<Rightarrow> pydict" where
  "row_dict d cols row = dict_of (zip (map (lower d) cols) row)"

text \<open>Lines 105-112: a statement with \<open>RETURNING\<close> and parameters.\<close>

definition execute_query_returning ::
  "driver \<Rightarrow> conn \<Rightarrow> string \<Rightarrow> pydict \<Rightarrow> bool \<Rightarrow> state \<Rightarrow> (exn + qresult) \<times> state" where
  "execute_query_returning d cn query params commit s =
     (case make_out_params d cn (out_keys params) s of
        (Inl e, s1) \<Rightarrow> (Inl e, s1)
      | (Inr u, s1) \<Rightarrow>
     (case call_drv d (Cursor_execute cn query (bind_params params)) s1 of
        (Some e, s2) \<Rightarrow> (Inl e, s2)
      | (None, s2) \<Rightarrow>
     (case read_out_params d cn (out_keys params) s2 of
        (Inl e, s3) \<Rightarrow> (Inl e, s3)
      | (Inr returned_ids, s3) \<Rightarrow>
          (if commit then
             (case call_drv d (Conn_commit cn) s3 of
                (Some e, s4) \<Rightarrow> (Inl e, s4)
              | (None, s4) \<Rightarrow> (Inr (RDict returned_ids), s4))
           else (Inr (RDict returned_ids), s3)))))"

text \<open>
  Lines 114-129: every other statement. Line 129 is, as shipped,

  \<^verbatim>\<open>return [dict(zip(columns, row)] for row in rows]\<close>

  with the bracket of the list closed before the parenthesis of \<open>dict\<close>. Python does
  not accept that line: compiling it ends with a \<open>SyntaxError\<close> (closing parenthesis
  \<open>]\<close> does not match opening parenthesis \<open>(\<close>), and it does so for the whole module,
  before any request is served. The line is not repaired here. Every other line is taken
  as it is written, so the paths that do not reach line 129 behave as their text says;
  the path that reaches it (no \<open>RETURNING\<close> with parameters, no commit, no \<open>fetch_one\<close>)
  runs lines 114-128 and then ends with that \<open>SyntaxError\<close> where the list of records
  would be returned, and the handlers and the \<open>finally\<close> block treat it as they treat
  any \<open>Exception\<close>.
\<close>

definition msg_line_129 :: string where
  "msg_line_129 =
     ''closing parenthesis '' @ [CHR 0x27] @ '']'' @ [CHR 0x27]
     @ '' does not match opening parenthesis '' @ [CHR 0x27] @ ''('' @ [CHR 0x27]"

definition execute_query_plain ::
  "driver \<Rightarrow> conn \<Rightarrow> string \<Rightarrow> pydict \<Rightarrow> bool \<Rightarrow> bool \<Rightarrow> bool \<Rightarrow> state \<Rightarrow> (exn + qresult) \<times> state" where
  "execute_query_plain d cn query params fetch_one commit is_ddl s =
     (case call_drv d (Cursor_execute cn query (in_binds params)) s of
        (Some e, s1) \<Rightarrow> (Inl e, s1)
      | (None, s1) \<Rightarrow>
          (if is_ddl \<or> commit then
             (case call_drv d (Conn_commit cn) s1 of
                (Some e, s2) \<Rightarrow> (Inl e, s2)
              | (None, s2) \<Rightarrow> (Inr RNone, s2))
           else if fetch_one then
             (case call_drv d (Cursor_fetchone cn) s1 of
                (Some e, s2) \<Rightarrow> (Inl e, s2)
              | (None, s2) \<Rightarrow>
                  (case fetchone d (trace s1) cn of
                     None \<Rightarrow> (Inr RNone, s2)
                   | Some row \<Rightarrow>
                       (if row = [] then (Inr RNone, s2)
                        else (Inr (RDict (row_dict d (description d (trace s2) cn) row)), s2))))
           else
             (case call_drv d (Cursor_fetchall cn) s1 of
                (Some e, s2) \<Rightarrow> (Inl e, s2)
              | (None, s2) \<Rightarrow> (Inl (SyntaxError msg_line_129), s2))))"

text \<open>Lines 103-129, once the cursor exists.\<close>

definition execute_query_run ::
  "driver \<Rightarrow> conn \<Rightarrow> string \<Rightarrow> pydict option \<Rightarrow> bool \<Rightarrow> bool \<Rightarrow> bool \<Rightarrow> state \<Rightarrow> (exn + qresult) \<times> state" where
  "execute_query_run d cn query params fetch_one commit is_ddl s =
     (if contains (upper d query) ''RETURNING'' \<and> truthy_params params
      then execute_query_returning d cn query (params_or_empty params) commit s
      else execute_query_plain d cn query (params_or_empty params) fetch_one commit is_ddl s)"

text \<open>
  The \<open>try\<close> block (lines 99-129): its outcome, and the values of \<open>conn\<close> and of
  \<open>cursor\<close> (set or not) that the \<open>finally\<close> block will see.
\<close>

definition execute_query_try ::
  "driver \<Rightarrow> config \<Rightarrow> string \<Rightarrow> pydict option \<Rightarrow> bool \<Rightarrow> bool \<Rightarrow> bool \<Rightarrow> state
     \<Rightarrow> ((exn + qresult) \<times> conn option \<times> bool) \<times> state" where
  "execute_query_try d cfg query params fetch_one commit is_ddl s =
     (case get_db_connection d cfg s of
        (Inl e, s1) \<Rightarrow> ((Inl e, None, False), s1)
      | (Inr cn, s1) \<Rightarrow>
          (case call_drv d (Conn_cursor cn) s1 of
             (Some e, s2) \<Rightarrow> ((Inl e, Some cn, False), s2)
           | (None, s2) \<Rightarrow>
               (case execute_query_run d cn query params fetch_one commit is_ddl s2 of
                  (r, s3) \<Rightarrow> ((r, Some cn, True), s3))))"

text \<open>Line 135: the codes that mean the connection to the database is gone.\<close>

definition is_connection_error :: "int \<Rightarrow> bool" where
  "is_connection_error code =
     (code = 24324 \<or> code = 1033 \<or> code = 1089 \<or> code = 3113 \<or> code = 3114
      \<or> code = 12537 \<or> code = 12541)"

text \<open>
  Lines 138-144: close the pool (an exception of \<open>close\<close> is printed and dropped), forget
  it, and try to create a new one.
\<close>

definition reset_pool :: "driver \<Rightarrow> config \<Rightarrow> state \<Rightarrow> (exn + unit) \<times> state" where
  "reset_pool d cfg s =
     (case pool s of
        Some p \<Rightarrow> init_oracle_pool d cfg ((snd (call_drv d (Pool_close p) s))\<lparr>pool := None\<rparr>)
      | None \<Rightarrow> init_oracle_pool d cfg s)"

text \<open>
  The two \<open>except\<close> clauses (lines 131-148), applied to the exception of the \<open>try\<close>
  block: the exception they raise. An \<open>HTTPException\<close> is an \<open>Exception\<close>, so the
  second clause catches the 503 of \<open>get_db_connection\<close> too.
\<close>

definition execute_query_except :: "driver \<Rightarrow> config \<Rightarrow> exn \<Rightarrow> state \<Rightarrow> exn \<times> state" where
  "execute_query_except d cfg e s =
     (case e of
        DatabaseError code message \<Rightarrow>
          (case (if is_connection_error code then reset_pool d cfg s else (Inr (), s)) of
             (Inl e', s1) \<Rightarrow> (e', s1)
           | (Inr u, s1) \<Rightarrow> (HTTPException 500 (''Erro no banco de dados Oracle: '' @ message), s1))
      | _ \<Rightarrow> (HTTPException 500 (''Erro interno do servidor: '' @ str_exn e), s))"

definition msg_none_release :: string where
  "msg_none_release =
     [CHR 0x27] @ ''NoneType'' @ [CHR 0x27] @ '' object has no attribute ''
     @ [CHR 0x27] @ ''release'' @ [CHR 0x27]"

text \<open>
  The \<open>finally\<close> block (lines 149-153), given the outcome \<open>r\<close> so far. \<open>pool\<close> is the
  global as it is now; on \<open>None\<close> the attribute lookup fails. An exception raised here
  replaces \<open>r\<close>.
\<close>

definition execute_query_finally ::
  "driver \<Rightarrow> conn option \<Rightarrow> bool \<Rightarrow> (exn + qresult) \<Rightarrow> state \<Rightarrow> (exn + qresult) \<times> state" where
  "execute_query_finally d conn cursor r s =
     (case conn of
        None \<Rightarrow> (r, s)
      | Some cn \<Rightarrow>
          (case (if cursor then call_drv d (Cursor_close cn) s else (None, s)) of
             (Some e, s1) \<Rightarrow> (Inl e, s1)
           | (None, s1) \<Rightarrow>
               (case pool s1 of
                  None \<Rightarrow> (Inl (AttributeError msg_none_release), s1)
                | Some p \<Rightarrow>
                    (case call_drv d (Pool_release p cn) s1 of
                       (Some e, s2) \<Rightarrow> (Inl e, s2)
                     | (None, s2) \<Rightarrow> (r, s2)))))"

text \<open>\<open>execute_query\<close> (lines 96-153).\<close>

definition execute_query ::
  "driver \<Rightarrow> config \<Rightarrow> string \<Rightarrow> pydict option \<Rightarrow> bool \<Rightarrow> bool \<Rightarrow> bool \<Rightarrow> state \<Rightarrow> (exn + qresult) \<times> state" where
  "execute_query d cfg query params fetch_one commit is_ddl s =
     (case execute_query_try d cfg query params fetch_one commit is_ddl s of
        ((Inr v, conn, cursor), s1) \<Rightarrow> execute_query_finally d conn cursor (Inr v) s1
      | ((Inl e, conn, cursor), s1) \<Rightarrow>
          (case execute_query_except d cfg e s1 of
             (e', s2) \<Rightarrow> execute_query_finally d conn cursor (Inl e') s2))"

section \<open>Request models\<close>

text \<open>
  A field of a partial-update model is either absent from the request or given, and a
  given field may be \<open>null\<close>. \<open>dict(exclude_unset=True)\<close> keeps the given fields, in the
  order the class declares them.
\<close>

datatype 'a field = Unset | Given "'a option"

fun field_item :: "string \<Rightarrow> ('a \<Rightarrow> val) \<Rightarrow> 'a field \<Rightarrow> pydict" where
  "field_item k conv Unset = []"
| "field_item k conv (Given None) = [(k, VNone)]"
| "field_item k conv (Given (Some x)) = [(k, conv x)]"

fun opt_val :: "('a \<Rightarrow> val) \<Rightarrow> 'a option \<Rightarrow> val" where
  "opt_val conv None = VNone"
| "opt_val conv (Some x) = conv x"

record PessoaCreate =
  nome :: string
  cpf :: string
  telefone :: "string option"
  endereco :: "string option"
  situacao :: string
  necessidades :: "string option"

definition PessoaCreate_dict :: "PessoaCreate \<Rightarrow> pydict" where
  "PessoaCreate_dict p =
     [(''nome'', VStr (nome p)), (''cpf'', VStr (cpf p)), (''telefone'', opt_val VStr (telefone p)),
      (''endereco'', opt_val VStr (endereco p)), (''situacao'', VStr (situacao p)),
      (''necessidades'', opt_val VStr (necessidades p))]"

record PessoaUpdate =
  pu_nome :: "string field"
  pu_telefone :: "string field"
  pu_endereco :: "string field"
  pu_situacao :: "string field"
  pu_necessidades :: "string field"

definition PessoaUpdate_dict :: "PessoaUpdate \<Rightarrow> pydict" where
  "PessoaUpdate_dict u =
     field_item ''nome'' VStr (pu_nome u) @ field_item ''telefone'' VStr (pu_telefone u)
     @ field_item ''endereco'' VStr (pu_endereco u) @ field_item ''situacao'' VStr (pu_situacao u)
     @ field_item ''necessidades'' VStr (pu_necessidades u)"

record AbrigoUpdate =
  au_nome :: "string field"
  au_endereco :: "string field"
  au_capacidade :: "int field"
  au_ocupacao_atual :: "int field"
  au_responsavel :: "string field"
  au_telefone_responsavel :: "string field"
  au_recursos_disponiveis :: "string field"

definition AbrigoUpdate_dict :: "AbrigoUpdate \<Rightarrow> pydict" where
  "AbrigoUpdate_dict u =
     field_item ''nome'' VStr (au_nome u) @ field_item ''endereco'' VStr (au_endereco u)
     @ field_item ''capacidade'' VInt (au_capacidade u)
     @ field_item ''ocupacao_atual'' VInt (au_ocupacao_atual u)
     @ field_item ''responsavel'' VStr (au_responsavel u)
     @ field_item ''telefone_responsavel'' VStr (au_telefone_responsavel u)
     @ field_item ''recursos_disponiveis'' VStr (au_recursos_disponiveis u)"

record DoacaoUpdate =
  du_doador_nome :: "string field"
  du_doador_telefone :: "string field"
  du_tipo_doacao :: "string field"
  du_descricao :: "string field"
  du_quantidade :: "string field"
  du_status :: "string field"
  du_id_abrigo_destino :: "string field"

definition DoacaoUpdate_dict :: "DoacaoUpdate \<Rightarrow> pydict" where
  "DoacaoUpdate_dict u =
     field_item ''doador_nome'' VStr (du_doador_nome u)
     @ field_item ''doador_telefone'' VStr (du_doador_telefone u)
     @ field_item ''tipo_doacao'' VStr (du_tipo_doacao u)
     @ field_item ''descricao'' VStr (du_descricao u)
     @ field_item ''quantidade'' VStr (du_quantidade u)
     @ field_item ''status'' VStr (du_status u)
     @ field_item ''id_abrigo_destino'' VStr (du_id_abrigo_destino u)"

text \<open>The field names the three partial-update classes declare (lines 167-172, 191-198, 218-225).\<close>

definition PessoaUpdate_fields :: "string list" where
  "PessoaUpdate_fields = [''nome'', ''telefone'', ''endereco'', ''situacao'', ''necessidades'']"

definition AbrigoUpdate_fields :: "string list" where
  "AbrigoUpdate_fields =
     [''nome'', ''endereco'', ''capacidade'', ''ocupacao_atual'', ''responsavel'',
      ''telefone_responsavel'', ''recursos_disponiveis'']"

definition DoacaoUpdate_fields :: "string list" where
  "DoacaoUpdate_fields =
     [''doador_nome'', ''doador_telefone'', ''tipo_doacao'', ''descricao'', ''quantidade'',
      ''status'', ''id_abrigo_destino'']"

section \<open>Routes\<close>

text \<open>\<open>not r\<close> and \<open>r[key]\<close> on a result of \<open>execute_query\<close>.\<close>

fun truthy_result :: "qresult \<Rightarrow> bool" where
  "truthy_result RNone = False"
| "truthy_result (RDict dct) = (dct \<noteq> [])"
| "truthy_result (RList l) = (l \<noteq> [])"

definition msg_not_subscriptable :: string where
  "msg_not_subscriptable =
     [CHR 0x27] @ ''NoneType'' @ [CHR 0x27] @ '' object is not subscriptable''"

fun subscript :: "qresult \<Rightarrow> string \<Rightarrow> exn + val" where
  "subscript RNone k = Inl (TypeError msg_not_subscriptable)"
| "subscript (RDict dct) k = (case dict_get dct k of None \<Rightarrow> Inl (KeyError k) | Some v \<Rightarrow> Inr v)"
| "subscript (RList l) k = Inl (TypeError ''list indices must be integers or slices, not str'')"

subsection \<open>Pessoas\<close>

definition cadastrar_pessoa_query :: string where
  "cadastrar_pessoa_query =
     [CHR 0x0A] @ ''        INSERT INTO PESSOAS (NOME, CPF, TELEFONE, ENDERECO, SITUACAO, NECESSIDADES)''
     @ [CHR 0x0A] @ ''        VALUES (:nome, :cpf, :telefone, :endereco, :situacao, :necessidades)''
     @ [CHR 0x0A] @ ''        RETURNING ID_PESSOA INTO :out_id_pessoa''
     @ [CHR 0x0A] @ ''    ''"

definition listar_pessoas_query :: string where
  "listar_pessoas_query =
     ''SELECT ID_PESSOA, NOME, CPF, TELEFONE, ENDERECO, SITUACAO, NECESSIDADES, DATA_CADASTRO FROM PESSOAS ORDER BY NOME''"

definition obter_pessoa_query :: string where
  "obter_pessoa_query =
     ''SELECT ID_PESSOA, NOME, CPF, TELEFONE, ENDERECO, SITUACAO, NECESSIDADES, DATA_CADASTRO FROM PESSOAS WHERE ID_PESSOA = :id_pessoa''"

definition msg_pessoa_nao_encontrada :: string where
  "msg_pessoa_nao_encontrada = ''Pessoa n'' @ a_tilde @ ''o encontrada''"

definition listar_pessoas :: "driver \<Rightarrow> config \<Rightarrow> state \<Rightarrow> (exn + qresult) \<times> state" where
  "listar_pessoas d cfg s = execute_query d cfg listar_pessoas_query None False False False s"

definition obter_pessoa :: "driver \<Rightarrow> config \<Rightarrow> val \<Rightarrow> state \<Rightarrow> (exn + qresult) \<times> state" where
  "obter_pessoa d cfg pessoa_id s =
     (case execute_query d cfg obter_pessoa_query (Some [(''id_pessoa'', pessoa_id)]) True False False s of
        (Inl e, s1) \<Rightarrow> (Inl e, s1)
      | (Inr pessoa, s1) \<Rightarrow>
          (if \<not> truthy_result pessoa then (Inl (HTTPException 404 msg_pessoa_nao_encontrada), s1)
           else (Inr pessoa, s1)))"

definition msg_cpf_ja_cadastrado :: "string \<Rightarrow> string" where
  "msg_cpf_ja_cadastrado c = ''CPF '' @ c @ '' j'' @ a_acute @ '' cadastrado.''"

text \<open>
  \<open>cadastrar_pessoa\<close> (lines 236-253). The handler sees every \<open>HTTPException\<close> of the
  \<open>try\<close> block, also those of the read that follows the insert.
\<close>

definition cadastrar_pessoa :: "driver \<Rightarrow> config \<Rightarrow> PessoaCreate \<Rightarrow> state \<Rightarrow> (exn + qresult) \<times> state" where
  "cadastrar_pessoa d cfg pessoa s =
     (case (case execute_query d cfg cadastrar_pessoa_query
                   (Some (dict_set ''out_id_pessoa'' VNone (PessoaCreate_dict pessoa))) False True False s of
              (Inl e, s1) \<Rightarrow> (Inl e, s1)
            | (Inr returned_data, s1) \<Rightarrow>
                (case subscript returned_data ''out_id_pessoa'' of
                   Inl e \<Rightarrow> (Inl e, s1)
                 | Inr new_id \<Rightarrow> obter_pessoa d cfg new_id s1)) of
        (Inl (HTTPException c detail), s2) \<Rightarrow>
          (if contains (upper d detail) ''UNIQUE_CONSTRAINT_VIOLATED'' \<or> contains detail ''ORA-00001''
           then (Inl (HTTPException 409 (msg_cpf_ja_cadastrado (cpf pessoa))), s2)
           else (Inl (HTTPException c detail), s2))
      | (r, s2) \<Rightarrow> (r, s2))"

text \<open>Lines 279-282, 331-333, 381-383: the SET clause and the statement around it.\<close>

definition set_clauses :: "driver \<Rightarrow> pydict \<Rightarrow> string" where
  "set_clauses d update_data =
     join '', '' (map (\<lambda>key. upper d key @ '' = :'' @ key) (map fst update_data))"

definition atualizar_pessoa_query :: "driver \<Rightarrow> pydict \<Rightarrow> string" where
  "atualizar_pessoa_query d update_data =
     ''UPDATE PESSOAS SET '' @ set_clauses d update_data @ '' WHERE ID_PESSOA = :id_pessoa_param''"

definition msg_nenhum_dado_fornecido :: string where
  "msg_nenhum_dado_fornecido = ''Nenhum dado fornecido para atualiza'' @ c_cedil @ a_tilde @ ''o''"

definition msg_nenhum_dado :: string where
  "msg_nenhum_dado = ''Nenhum dado para atualiza'' @ c_cedil @ a_tilde @ ''o''"

definition atualizar_pessoa ::
  "driver \<Rightarrow> config \<Rightarrow> int \<Rightarrow> PessoaUpdate \<Rightarrow> state \<Rightarrow> (exn + qresult) \<times> state" where
  "atualizar_pessoa d cfg pessoa_id pessoa_update s =
     (case obter_pessoa d cfg (VInt pessoa_id) s of
        (Inl e, s1) \<Rightarrow> (Inl e, s1)
      | (Inr found, s1) \<Rightarrow>
          (if PessoaUpdate_dict pessoa_update = [] then (Inl (HTTPException 400 msg_nenhum_dado_fornecido), s1)
           else
             (case execute_query d cfg (atualizar_pessoa_query d (PessoaUpdate_dict pessoa_update))
                     (Some (dict_update (PessoaUpdate_dict pessoa_update) [(''id_pessoa_param'', VInt pessoa_id)]))
                     False True False s1 of
                (Inl e, s2) \<Rightarrow> (Inl e, s2)
              | (Inr u, s2) \<Rightarrow> obter_pessoa d cfg (VInt pessoa_id) s2)))"

subsection \<open>Abrigos\<close>

definition listar_abrigos_query :: string where
  "listar_abrigos_query =
     ''SELECT ID_ABRIGO, NOME, ENDERECO, CAPACIDADE, OCUPACAO_ATUAL, RESPONSAVEL, TELEFONE_RESPONSAVEL, RECURSOS_DISPONIVEIS, DATA_CRIACAO FROM ABRIGOS ORDER BY NOME''"

definition obter_abrigo_query :: string where
  "obter_abrigo_query =
     ''SELECT ID_ABRIGO, NOME, ENDERECO, CAPACIDADE, OCUPACAO_ATUAL, RESPONSAVEL, TELEFONE_RESPONSAVEL, RECURSOS_DISPONIVEIS, DATA_CRIACAO FROM ABRIGOS WHERE ID_ABRIGO = :id_abrigo''"

definition msg_abrigo_nao_encontrado :: string where
  "msg_abrigo_nao_encontrado = ''Abrigo n'' @ a_tilde @ ''o encontrado''"

definition listar_abrigos :: "driver \<Rightarrow> config \<Rightarrow> state \<Rightarrow> (exn + qresult) \<times> state" where
  "listar_abrigos d cfg s = execute_query d cfg listar_abrigos_query None False False False s"

definition obter_abrigo :: "driver \<Rightarrow> config \<Rightarrow> val \<Rightarrow> state \<Rightarrow> (exn + qresult) \<times> state" where
  "obter_abrigo d cfg abrigo_id s =
     (case execute_query d cfg obter_abrigo_query (Some [(''id_abrigo'', abrigo_id)]) True False False s of
        (Inl e, s1) \<Rightarrow> (Inl e, s1)
      | (Inr abrigo_data, s1) \<Rightarrow>
          (if \<not> truthy_result abrigo_data then (Inl (HTTPException 404 msg_abrigo_nao_encontrado), s1)
           else (Inr abrigo_data, s1)))"

definition atualizar_abrigo_query :: "driver \<Rightarrow> pydict \<Rightarrow> string" where
  "atualizar_abrigo_query d update_data =
     ''UPDATE ABRIGOS SET '' @ set_clauses d update_data @ '' WHERE ID_ABRIGO = :id_abrigo_param''"

definition atualizar_abrigo ::
  "driver \<Rightarrow> config \<Rightarrow> int \<Rightarrow> AbrigoUpdate \<Rightarrow> state \<Rightarrow> (exn + qresult) \<times> state" where
  "atualizar_abrigo d cfg abrigo_id abrigo_update s =
     (case obter_abrigo d cfg (VInt abrigo_id) s of
        (Inl e, s1) \<Rightarrow> (Inl e, s1)
      | (Inr found, s1) \<Rightarrow>
          (if AbrigoUpdate_dict abrigo_update = [] then (Inl (HTTPException 400 msg_nenhum_dado), s1)
           else
             (case execute_query d cfg (atualizar_abrigo_query d (AbrigoUpdate_dict abrigo_update))
                     (Some (dict_update (AbrigoUpdate_dict abrigo_update) [(''id_abrigo_param'', VInt abrigo_id)]))
                     False True False s1 of
                (Inl e, s2) \<Rightarrow> (Inl e, s2)
              | (Inr u, s2) \<Rightarrow> obter_abrigo d cfg (VInt abrigo_id) s2)))"

subsection \<open>Doacoes\<close>

definition listar_doacoes_query :: string where
  "listar_doacoes_query =
     ''SELECT ID_DOACAO, DOADOR_NOME, DOADOR_TELEFONE, TIPO_DOACAO, DESCRICAO, QUANTIDADE, STATUS, DATA_DOACAO, ID_ABRIGO_DESTINO FROM DOACOES ORDER BY DATA_DOACAO DESC''"

definition obter_doacao_query :: string where
  "obter_doacao_query =
     ''SELECT ID_DOACAO, DOADOR_NOME, DOADOR_TELEFONE, TIPO_DOACAO, DESCRICAO, QUANTIDADE, STATUS, DATA_DOACAO, ID_ABRIGO_DESTINO FROM DOACOES WHERE ID_DOACAO = :id_doacao''"

definition msg_doacao_nao_encontrada :: string where
  "msg_doacao_nao_encontrada = ''Doa'' @ c_cedil @ a_tilde @ ''o n'' @ a_tilde @ ''o encontrada''"

definition listar_doacoes :: "driver \<Rightarrow> config \<Rightarrow> state \<Rightarrow> (exn + qresult) \<times> state" where
  "listar_doacoes d cfg s = execute_query d cfg listar_doacoes_query None False False False s"

definition obter_doacao :: "driver \<Rightarrow> config \<Rightarrow> val \<Rightarrow> state \<Rightarrow> (exn + qresult) \<times> state" where
  "obter_doacao d cfg doacao_id s =
     (case execute_query d cfg obter_doacao_query (Some [(''id_doacao'', doacao_id)]) True False False s of
        (Inl e, s1) \<Rightarrow> (Inl e, s1)
      | (Inr doacao_data, s1) \<Rightarrow>
          (if \<not> truthy_result doacao_data then (Inl (HTTPException 404 msg_doacao_nao_encontrada), s1)
           else (Inr doacao_data, s1)))"

definition atualizar_doacao_query :: "driver \<Rightarrow> pydict \<Rightarrow> string" where
  "atualizar_doacao_query d update_data =
     ''UPDATE DOACOES SET '' @ set_clauses d update_data @ '' WHERE ID_DOACAO = :id_doacao_param''"

definition atualizar_doacao ::
  "driver \<Rightarrow> config \<Rightarrow> int \<Rightarrow> DoacaoUpdate \<Rightarrow> state \<Rightarrow> (exn + qresult) \<times> state" where
  "atualizar_doacao d cfg doacao_id doacao_update s =
     (case obter_doacao d cfg (VInt doacao_id) s of
        (Inl e, s1) \<Rightarrow> (Inl e, s1)
      | (Inr found, s1) \<Rightarrow>
          (if DoacaoUpdate_dict doacao_update = [] then (Inl (HTTPException 400 msg_nenhum_dado), s1)
           else
             (case execute_query d cfg (atualizar_doacao_query d (DoacaoUpdate_dict doacao_update))
                     (Some (dict_update (DoacaoUpdate_dict doacao_update) [(''id_doacao_param'', VInt doacao_id)]))
                     False True False s1 of
                (Inl e, s2) \<Rightarrow> (Inl e, s2)
              | (Inr u, s2) \<Rightarrow> obter_doacao d cfg (VInt doacao_id) s2)))"

subsection \<open>Estatisticas\<close>

definition query_pessoas_total :: string where
  "query_pessoas_total = ''SELECT COUNT(*) AS total FROM PESSOAS''"

definition query_pessoas_desabrigadas :: string where
  "query_pessoas_desabrigadas =
     ''SELECT COUNT(*) AS total FROM PESSOAS WHERE SITUACAO = '' @ [CHR 0x27] @ ''desabrigado'' @ [CHR 0x27]"

definition query_abrigos_total :: string where
  "query_abrigos_total = ''SELECT COUNT(*) AS total FROM ABRIGOS''"

definition query_vagas_disponiveis :: string where
  "query_vagas_disponiveis = ''SELECT SUM(CAPACIDADE - OCUPACAO_ATUAL) AS total FROM ABRIGOS''"

definition query_doacoes_total :: string where
  "query_doacoes_total = ''SELECT COUNT(*) AS total FROM DOACOES''"

definition query_doacoes_pendentes :: string where
  "query_doacoes_pendentes =
     ''SELECT COUNT(*) AS total FROM DOACOES WHERE STATUS = '' @ [CHR 0x27] @ ''pendente'' @ [CHR 0x27]"

text \<open>The expression \<open>execute_query(q, fetch_one=True)['total']\<close> of lines 405-411.\<close>

definition fetch_total :: "driver \<Rightarrow> config \<Rightarrow> string \<Rightarrow> state \<Rightarrow> (exn + val) \<times> state" where
  "fetch_total d cfg q s =
     (case execute_query d cfg q None True False False s of
        (Inl e, s1) \<Rightarrow> (Inl e, s1)
      | (Inr r, s1) \<Rightarrow> (subscript r ''total'', s1))"

text \<open>Lines 408-409: a missing row and a null sum both count as 0.\<close>

definition fetch_vagas :: "driver \<Rightarrow> config \<Rightarrow> state \<Rightarrow> (exn + val) \<times> state" where
  "fetch_vagas d cfg s =
     (case execute_query d cfg query_vagas_disponiveis None True False False s of
        (Inl e, s1) \<Rightarrow> (Inl e, s1)
      | (Inr vagas_disponiveis_result, s1) \<Rightarrow>
          (if truthy_result vagas_disponiveis_result then
             (case subscript vagas_disponiveis_result ''total'' of
                Inl e \<Rightarrow> (Inl e, s1)
              | Inr v \<Rightarrow> (if v \<noteq> VNone then (Inr v, s1) else (Inr (VInt 0), s1)))
           else (Inr (VInt 0), s1)))"

text \<open>The \<open>try\<close> block of \<open>obter_estatisticas\<close> (lines 405-411) and the dict of lines 416-423.\<close>

definition obter_estatisticas_try :: "driver \<Rightarrow> config \<Rightarrow> state \<Rightarrow> (exn + pydict) \<times> state" where
  "obter_estatisticas_try d cfg s =
     (case fetch_total d cfg query_pessoas_total s of
        (Inl e, s1) \<Rightarrow> (Inl e, s1)
      | (Inr total_pessoas, s1) \<Rightarrow>
     (case fetch_total d cfg query_pessoas_desabrigadas s1 of
        (Inl e, s2) \<Rightarrow> (Inl e, s2)
      | (Inr pessoas_desabrigadas, s2) \<Rightarrow>
     (case fetch_total d cfg query_abrigos_total s2 of
        (Inl e, s3) \<Rightarrow> (Inl e, s3)
      | (Inr total_abrigos, s3) \<Rightarrow>
     (case fetch_vagas d cfg s3 of
        (Inl e, s4) \<Rightarrow> (Inl e, s4)
      | (Inr vagas_disponiveis, s4) \<Rightarrow>
     (case fetch_total d cfg query_doacoes_total s4 of
        (Inl e, s5) \<Rightarrow> (Inl e, s5)
      | (Inr total_doacoes, s5) \<Rightarrow>
     (case fetch_total d cfg query_doacoes_pendentes s5 of
        (Inl e, s6) \<Rightarrow> (Inl e, s6)
      | (Inr doacoes_pendentes, s6) \<Rightarrow>
          (Inr [(''total_pessoas'', total_pessoas),
                (''pessoas_desabrigadas'', pessoas_desabrigadas),
                (''total_abrigos'', total_abrigos),
                (''vagas_disponiveis'', vagas_disponiveis),
                (''total_doacoes'', total_doacoes),
                (''doacoes_pendentes'', doacoes_pendentes)], s6)))))))"

definition msg_erro_estatisticas :: "string \<Rightarrow> string" where
  "msg_erro_estatisticas m = ''Erro ao buscar estat'' @ i_acute @ ''sticas do banco: '' @ m"

definition obter_estatisticas :: "driver \<Rightarrow> config \<Rightarrow> state \<Rightarrow> (exn + pydict) \<times> state" where
  "obter_estatisticas d cfg s =
     (case obter_estatisticas_try d cfg s of
        (Inl e, s1) \<Rightarrow> (Inl (HTTPException 500 (msg_erro_estatisticas (str_exn e))), s1)
      | (Inr snapshot, s1) \<Rightarrow> (Inr snapshot, s1))"

section \<open>The routes, by resource\<close>

text \<open>
  The three resources of the router, and the routes that exist once per resource
  (\<open>GET /pessoas\<close>, \<open>GET /abrigos\<close>, \<open>GET /doacoes\<close>), with the statement each list route
  sends and the ORDER BY clause it ends with.
\<close>

datatype entity = Pessoa | Abrigo | Doacao

fun listar :: "driver \<Rightarrow> config \<Rightarrow> entity \<Rightarrow> state \<Rightarrow> (exn + qresult) \<times> state" where
  "listar d cfg Pessoa s = listar_pessoas d cfg s"
| "listar d cfg Abrigo s = listar_abrigos d cfg s"
| "listar d cfg Doacao s = listar_doacoes d cfg s"

fun listar_query :: "entity \<Rightarrow> string" where
  "listar_query Pessoa = listar_pessoas_query"
| "listar_query Abrigo = listar_abrigos_query"
| "listar_query Doacao = listar_doacoes_query"

fun order_by :: "entity \<Rightarrow> string" where
  "order_by Pessoa = ''NOME''"
| "order_by Abrigo = ''NOME''"
| "order_by Doacao = ''DATA_DOACAO DESC''"

definition endswith :: "string \<Rightarrow> string \<Rightarrow> bool" where
  "endswith s suffix = (length suffix \<le> length s \<and> drop (length s - length suffix) s = suffix)"

text \<open>
  The routes that exist once per resource with an identity in the path
  (\<open>GET\<close> and \<open>PUT /pessoas/{id}\<close>, \<open>/abrigos/{id}\<close>, \<open>/doacoes/{id}\<close>), and what differs
  between the three copies: the statement of the read, the names of the bind parameters,
  the messages, the fields of the partial-update class.
\<close>

datatype update_payload =
    PessoaPayload PessoaUpdate
  | AbrigoPayload AbrigoUpdate
  | DoacaoPayload DoacaoUpdate

fun payload_entity :: "update_payload \<Rightarrow> entity" where
  "payload_entity (PessoaPayload u) = Pessoa"
| "payload_entity (AbrigoPayload u) = Abrigo"
| "payload_entity (DoacaoPayload u) = Doacao"

fun update_data :: "update_payload \<Rightarrow> pydict" where
  "update_data (PessoaPayload u) = PessoaUpdate_dict u"
| "update_data (AbrigoPayload u) = AbrigoUpdate_dict u"
| "update_data (DoacaoPayload u) = DoacaoUpdate_dict u"

fun obter :: "driver \<Rightarrow> config \<Rightarrow> entity \<Rightarrow> val \<Rightarrow> state \<Rightarrow> (exn + qresult) \<times> state" where
  "obter d cfg Pessoa ident s = obter_pessoa d cfg ident s"
| "obter d cfg Abrigo ident s = obter_abrigo d cfg ident s"
| "obter d cfg Doacao ident s = obter_doacao d cfg ident s"

fun atualizar :: "driver \<Rightarrow> config \<Rightarrow> int \<Rightarrow> update_payload \<Rightarrow> state \<Rightarrow> (exn + qresult) \<times> state" where
  "atualizar d cfg ident (PessoaPayload u) s = atualizar_pessoa d cfg ident u s"
| "atualizar d cfg ident (AbrigoPayload u) s = atualizar_abrigo d cfg ident u s"
| "atualizar d cfg ident (DoacaoPayload u) s = atualizar_doacao d cfg ident u s"

fun obter_query :: "entity \<Rightarrow> string" where
  "obter_query Pessoa = obter_pessoa_query"
| "obter_query Abrigo = obter_abrigo_query"
| "obter_query Doacao = obter_doacao_query"

fun obter_param :: "entity \<Rightarrow> string" where
  "obter_param Pessoa = ''id_pessoa''"
| "obter_param Abrigo = ''id_abrigo''"
| "obter_param Doacao = ''id_doacao''"

fun msg_not_found :: "entity \<Rightarrow> string" where
  "msg_not_found Pessoa = msg_pessoa_nao_encontrada"
| "msg_not_found Abrigo = msg_abrigo_nao_encontrado"
| "msg_not_found Doacao = msg_doacao_nao_encontrada"

fun msg_no_fields :: "entity \<Rightarrow> string" where
  "msg_no_fields Pessoa = msg_nenhum_dado_fornecido"
| "msg_no_fields Abrigo = msg_nenhum_dado"
| "msg_no_fields Doacao = msg_nenhum_dado"

fun atualizar_query :: "driver \<Rightarrow> entity \<Rightarrow> pydict \<Rightarrow> string" where
  "atualizar_query d Pessoa = atualizar_pessoa_query d"
| "atualizar_query d Abrigo = atualizar_abrigo_query d"
| "atualizar_query d Doacao = atualizar_doacao_query d"

fun atualizar_param :: "entity \<Rightarrow> string" where
  "atualizar_param Pessoa = ''id_pessoa_param''"
| "atualizar_param Abrigo = ''id_abrigo_param''"
| "atualizar_param Doacao = ''id_doacao_param''"

fun table_name :: "entity \<Rightarrow> string" where
  "table_name Pessoa = ''PESSOAS''"
| "table_name Abrigo = ''ABRIGOS''"
| "table_name Doacao = ''DOACOES''"

fun id_column :: "entity \<Rightarrow> string" where
  "id_column Pessoa = ''ID_PESSOA''"
| "id_column Abrigo = ''ID_ABRIGO''"
| "id_column Doacao = ''ID_DOACAO''"

fun update_fields :: "entity \<Rightarrow> string list" where
  "update_fields Pessoa = PessoaUpdate_fields"
| "update_fields Abrigo = AbrigoUpdate_fields"
| "update_fields Doacao = DoacaoUpdate_fields"

text \<open>Which fields of a payload were given in the request, in the order of the class.\<close>

fun given :: "'a field \<Rightarrow> bool" where
  "given Unset = False"
| "given (Given x) = True"

fun present :: "update_payload \<Rightarrow> (string \<times> bool) list" where
  "present (PessoaPayload u) =
     [(''nome'', given (pu_nome u)), (''telefone'', given (pu_telefone u)),
      (''endereco'', given (pu_endereco u)), (''situacao'', given (pu_situacao u)),
      (''necessidades'', given (pu_necessidades u))]"
| "present (AbrigoPayload u) =
     [(''nome'', given (au_nome u)), (''endereco'', given (au_endereco u)),
      (''capacidade'', given (au_capacidade u)), (''ocupacao_atual'', given (au_ocupacao_atual u)),
      (''responsavel'', given (au_responsavel u)),
      (''telefone_responsavel'', given (au_telefone_responsavel u)),
      (''recursos_disponiveis'', given (au_recursos_disponiveis u))]"
| "present (DoacaoPayload u) =
     [(''doador_nome'', given (du_doador_nome u)), (''doador_telefone'', given (du_doador_telefone u)),
      (''tipo_doacao'', given (du_tipo_doacao u)), (''descricao'', given (du_descricao u)),
      (''quantidade'', given (du_quantidade u)), (''status'', given (du_status u)),
      (''id_abrigo_destino'', given (du_id_abrigo_destino u))]"

section \<open>Reading the trace\<close>

text \<open>
  \<open>grows Q s s'\<close>: the trace of \<open>s'\<close> is the trace of \<open>s\<close> followed by events that all
  satisfy \<open>Q\<close>.
\<close>

definition added :: "state \<Rightarrow> state \<Rightarrow> event list" where
  "added s s' = drop (length (trace s)) (trace s')"

definition grows :: "(event \<Rightarrow> bool) \<Rightarrow> state \<Rightarrow> state \<Rightarrow> bool" where
  "grows Q s s' = (take (length (trace s)) (trace s') = trace s \<and> list_all Q (added s s'))"

text \<open>The bind dictionary that reaches \<open>cursor.execute\<close> (line 108 or line 114).\<close>

definition binds_sent :: "driver \<Rightarrow> string \<Rightarrow> pydict option \<Rightarrow> (string \<times> bindv) list" where
  "binds_sent d query params =
     (if contains (upper d query) ''RETURNING'' \<and> truthy_params params
      then bind_params (params_or_empty params) else in_binds (params_or_empty params))"

fun is_statement :: "call \<Rightarrow> bool" where
  "is_statement (Cursor_execute cn q b) = True"
| "is_statement (Conn_commit cn) = True"
| "is_statement c = False"

text \<open>
  \<open>runs_only allowed may_commit\<close> holds of an event unless it executes a statement
  (text and binds) that is not in \<open>allowed\<close>, or commits when \<open>may_commit\<close> is false.
\<close>

fun runs_only :: "(string \<times> (string \<times> bindv) list) list \<Rightarrow> bool \<Rightarrow> event \<Rightarrow> bool" where
  "runs_only allowed may_commit (Cursor_execute cn q b, r) = ((q, b) \<in> set allowed)"
| "runs_only allowed may_commit (Conn_commit cn, r) = may_commit"
| "runs_only allowed may_commit (c, r) = True"

text \<open>The global pool, when there is one, was created by a call in the trace.\<close>

definition pool_in_trace :: "state \<Rightarrow> bool" where
  "pool_in_trace s = (case pool s of None \<Rightarrow> True | Some p \<Rightarrow> p < length (trace s))"

text \<open>
  With a pool \<open>p\<close> in place and a driver that lets every call through, an invocation of
  \<open>execute_query\<close> from state \<open>s\<close> works on the connection \<open>conn_of s p\<close>, and
  \<open>after_execute s p query binds\<close> is the trace right after its statement has run
  (what the driver knows when the rows are fetched).
\<close>

definition conn_of :: "state \<Rightarrow> pool_id \<Rightarrow> conn" where
  "conn_of s p = (p, length (trace s))"

definition after_execute :: "state \<Rightarrow> pool_id \<Rightarrow> string \<Rightarrow> (string \<times> bindv) list \<Rightarrow> event list" where
  "after_execute s p query binds =
     trace s @ [(Pool_acquire p, None), (Conn_cursor (conn_of s p), None),
                (Cursor_execute (conn_of s p) query binds, None)]"



section \<open>Example configurations and drivers\<close>

text \<open>Concrete inputs at which the theorems below are instantiated.\<close>

definition unconfigured :: config where
  "unconfigured =
     \<lparr>DB_USER = None, DB_PASSWORD = None, DB_HOST = None, DB_PORT = ''1521'', DB_SERVICE_NAME = None\<rparr>"

definition quiet_driver :: driver where
  "quiet_driver =
     \<lparr>raises = (\<lambda>h c. None), fetchone = (\<lambda>h cn. None), fetchall = (\<lambda>h cn. []),
      description = (\<lambda>h cn. []), getvalue = (\<lambda>h cn k. []),
      str_upper = (\<lambda>s. s), str_lower = (\<lambda>s. s)\<rparr>"

definition configured :: config where
  "configured =
     \<lparr>DB_USER = Some ''rm'', DB_PASSWORD = Some ''pw'', DB_HOST = Some ''oracle.fiap.com.br'',
      DB_PORT = ''1521'', DB_SERVICE_NAME = Some ''orcl''\<rparr>"

definition select_dual :: string where
  "select_dual = ''SELECT 1 FROM DUAL''"

definition msg_eof :: string where
  "msg_eof = ''ORA-03113: end-of-file on communication channel''"

definition msg_no_listener :: string where
  "msg_no_listener = ''ORA-12541: TNS:no listener''"

fun lost_raises :: "event list \<Rightarrow> call \<Rightarrow> exn option" where
  "lost_raises h (SessionPool u p dsn) = (if h = [] then None else Some (DatabaseError 12541 msg_no_listener))"
| "lost_raises h (Cursor_execute cn q b) = Some (DatabaseError 3113 msg_eof)"
| "lost_raises h c = None"

definition lost_driver :: driver where
  "lost_driver =
     \<lparr>raises = lost_raises, fetchone = (\<lambda>h cn. None), fetchall = (\<lambda>h cn. []),
      description = (\<lambda>h cn. []), getvalue = (\<lambda>h cn k. []),
      str_upper = (\<lambda>s. s), str_lower = (\<lambda>s. s)\<rparr>"

fun flaky_raises :: "event list \<Rightarrow> call \<Rightarrow> exn option" where
  "flaky_raises h (Cursor_execute cn q b) = Some (DatabaseError 3113 msg_eof)"
| "flaky_raises h c = None"

definition flaky_driver :: driver where
  "flaky_driver =
     \<lparr>raises = flaky_raises, fetchone = (\<lambda>h cn. None), fetchall = (\<lambda>h cn. []),
      description = (\<lambda>h cn. []), getvalue = (\<lambda>h cn k. []),
      str_upper = (\<lambda>s. s), str_lower = (\<lambda>s. s)\<rparr>"

definition ready :: state where
  "ready = \<lparr>pool = Some 0, trace = [(SessionPool ''rm'' ''pw'' ''oracle.fiap.com.br:1521/orcl'', None)]\<rparr>"

definition msg_unique :: string where
  "msg_unique = ''ORA-00001: unique constraint (RM.PESSOAS_CPF_UK) violated''"

fun duplicate_raises :: "event list \<Rightarrow> call \<Rightarrow> exn option" where
  "duplicate_raises h (Cursor_execute cn q b) = Some (DatabaseError 1 msg_unique)"
| "duplicate_raises h c = None"

definition duplicate_driver :: driver where
  "duplicate_driver =
     \<lparr>raises = duplicate_raises, fetchone = (\<lambda>h cn. None), fetchall = (\<lambda>h cn. []),
      description = (\<lambda>h cn. []), getvalue = (\<lambda>h cn k. []),
      str_upper = (\<lambda>s. s), str_lower = (\<lambda>s. s)\<rparr>"

definition maria :: PessoaCreate where
  "maria = \<lparr>nome = ''Maria'', cpf = ''12345678900'', telefone = None, endereco = None,
            situacao = ''desabrigado'', necessidades = None\<rparr>"

definition listing_driver :: driver where
  "listing_driver =
     \<lparr>raises = (\<lambda>h c. None),
      fetchone = (\<lambda>h cn. Some [VInt 2, VDatetime 20]),
      fetchall = (\<lambda>h cn. [[VInt 2, VDatetime 20], [VInt 1, VDatetime 10]]),
      description = (\<lambda>h cn. [''ID_DOACAO'', ''DATA_DOACAO'']),
      getvalue = (\<lambda>h cn k. []),
      str_upper = (\<lambda>s. s), str_lower = (\<lambda>s. s)\<rparr>"


definition statement_just_run :: "event list \<Rightarrow> string" where
  "statement_just_run h = (case rev h of (Cursor_execute cn q b, r) # h' \<Rightarrow> q | _ \<Rightarrow> [])"


definition only_status :: DoacaoUpdate where
  "only_status =
     \<lparr>du_doador_nome = Unset, du_doador_telefone = Unset, du_tipo_doacao = Unset, du_descricao = Unset,
      du_quantidade = Unset, du_status = Given (Some ''entregue''), du_id_abrigo_destino = Unset\<rparr>"

definition nothing_given :: DoacaoUpdate where
  "nothing_given =
     \<lparr>du_doador_nome = Unset, du_doador_telefone = Unset, du_tipo_doacao = Unset, du_descricao = Unset,
      du_quantidade = Unset, du_status = Unset, du_id_abrigo_destino = Unset\<rparr>"

definition update_status_query :: string where
  "update_status_query = ''UPDATE DOACOES SET STATUS = :status WHERE ID_DOACAO = :id_doacao_param''"

section \<open>How the trace grows\<close>

lemma call_drv_simps [simp]:
  "fst (call_drv d c s) = raises d (trace s) c"
  "pool (snd (call_drv d c s)) = pool s"
  "trace (snd (call_drv d c s)) = trace s @ [(c, raises d (trace s) c)]"
  by (simp_all add: call_drv_def)

lemma grows_refl [simp]: "grows Q s s"
  by (simp add: grows_def added_def)

lemma grows_append: "grows Q s s' \<longleftrightarrow> (\<exists>ev. trace s' = trace s @ ev \<and> list_all Q ev)"
  unfolding grows_def added_def
  by (metis append_eq_conv_conj append_take_drop_id)

lemma grows_trans: "grows Q s s1 \<Longrightarrow> grows Q s1 s2 \<Longrightarrow> grows Q s s2"
  unfolding grows_append by auto

lemma grows_mono: "grows Q s s' \<Longrightarrow> \<forall>ev. Q ev \<longrightarrow> Q' ev \<Longrightarrow> grows Q' s s'"
  unfolding grows_append by (auto simp: list_all_iff)

lemma grows_call: "Q (c, raises d (trace s) c) \<Longrightarrow> grows Q s (snd (call_drv d c s))"
  unfolding grows_append by simp

lemma grows_pool_update [simp]: "grows Q s (s'\<lparr>pool := p\<rparr>) = grows Q s s'"
  unfolding grows_append by simp

lemma grows_pool_update2 [simp]: "grows Q (s\<lparr>pool := p\<rparr>) s' = grows Q s s'"
  unfolding grows_append by simp

lemma init_oracle_pool_grows:
  assumes "\<forall>c x. \<not> is_statement c \<longrightarrow> Q (c, x)"
  shows "grows Q s (snd (init_oracle_pool d cfg s))"
  using assms
  by (auto simp: init_oracle_pool_def call_drv_def grows_append split: option.splits if_splits)

lemma pool_acquire_grows:
  assumes "\<forall>c x. \<not> is_statement c \<longrightarrow> Q (c, x)"
  shows "grows Q s (snd (pool_acquire d p s))"
  using assms
  by (auto simp: pool_acquire_def call_drv_def grows_append split: option.splits if_splits)

lemma pool_acquire_pool [simp]: "pool (snd (pool_acquire d p s)) = pool s"
  by (auto simp: pool_acquire_def call_drv_def split: option.splits if_splits)

lemma pool_acquire_conn:
  "fst (pool_acquire d p s) = Inr cn \<Longrightarrow> cn = (p, length (trace s))"
  by (auto simp: pool_acquire_def call_drv_def split: option.splits if_splits)

lemma get_db_connection_grows:
  assumes Q: "\<forall>c x. \<not> is_statement c \<longrightarrow> Q (c, x)"
  shows "grows Q s (snd (get_db_connection d cfg s))"
proof (cases "pool s")
  case (Some p)
  then show ?thesis
    by (simp add: get_db_connection_def pool_acquire_grows [OF Q])
next
  case None
  let ?s1 = "snd (init_oracle_pool d cfg s)"
  have g1: "grows Q s ?s1" by (rule init_oracle_pool_grows [OF Q])
  have "snd (get_db_connection d cfg s) = ?s1
        \<or> (\<exists>p. snd (get_db_connection d cfg s) = snd (pool_acquire d p ?s1))"
    using None
    by (auto simp: get_db_connection_def split: prod.splits sum.splits option.splits)
  then show ?thesis
    using g1 pool_acquire_grows [OF Q, of ?s1] by (auto intro: grows_trans [OF g1])
qed

lemma get_db_connection_pool:
  "get_db_connection d cfg s = (Inr cn, s') \<Longrightarrow> pool s' = Some (fst cn)"
proof -
  have a: "\<And>p s0 s2. pool s0 = Some p \<Longrightarrow> pool_acquire d p s0 = (Inr cn, s2)
             \<Longrightarrow> pool s2 = Some (fst cn)"
  proof -
    fix p s0 s2
    assume p: "pool s0 = Some p" and q: "pool_acquire d p s0 = (Inr cn, s2)"
    from q have "fst (pool_acquire d p s0) = Inr cn" "s2 = snd (pool_acquire d p s0)" by simp_all
    with p pool_acquire_conn [of d p s0 cn] show "pool s2 = Some (fst cn)" by simp
  qed
  assume "get_db_connection d cfg s = (Inr cn, s')"
  then show ?thesis
    by (auto simp: get_db_connection_def split: option.splits sum.splits prod.splits intro: a)
qed

lemma make_out_params_grows:
  assumes Q: "\<forall>c x. \<not> is_statement c \<longrightarrow> Q (c, x)"
  shows "grows Q s (snd (make_out_params d cn ks s)) \<and> pool (snd (make_out_params d cn ks s)) = pool s"
proof (induction ks arbitrary: s)
  case Nil
  then show ?case by simp
next
  case (Cons k ks)
  let ?s1 = "snd (call_drv d (Cursor_var cn k) s)"
  have g1: "grows Q s ?s1" by (rule grows_call) (simp add: Q)
  show ?case
  proof (cases "raises d (trace s) (Cursor_var cn k)")
    case None
    then have "snd (make_out_params d cn (k # ks) s) = snd (make_out_params d cn ks ?s1)"
      by (simp add: call_drv_def)
    with Cons.IH [of ?s1] g1 show ?thesis by (auto intro: grows_trans)
  next
    case (Some e)
    then have "snd (make_out_params d cn (k # ks) s) = ?s1"
      by (simp add: call_drv_def)
    with g1 show ?thesis by simp
  qed
qed

lemma read_out_params_grows:
  assumes Q: "\<forall>c x. \<not> is_statement c \<longrightarrow> Q (c, x)"
  shows "grows Q s (snd (read_out_params d cn ks s)) \<and> pool (snd (read_out_params d cn ks s)) = pool s"
proof (induction ks arbitrary: s)
  case Nil
  then show ?case by simp
next
  case (Cons k ks)
  let ?s1 = "snd (call_drv d (Var_getvalue cn k) s)"
  have g1: "grows Q s ?s1" by (rule grows_call) (simp add: Q)
  have "snd (read_out_params d cn (k # ks) s) = ?s1
      \<or> snd (read_out_params d cn (k # ks) s) = snd (read_out_params d cn ks ?s1)"
    by (simp add: call_drv_def split: option.splits list.splits prod.splits sum.splits)
  with Cons.IH [of ?s1] g1 show ?case by (auto intro: grows_trans)
qed


lemma runs_only_other: "\<forall>c x. \<not> is_statement c \<longrightarrow> runs_only al mc (c, x)"
proof (intro allI impI)
  fix c :: call and x :: "exn option"
  assume "\<not> is_statement c"
  then show "runs_only al mc (c, x)" by (cases c) simp_all
qed

lemma execute_query_returning_grows:
  assumes Q: "\<forall>c x. \<not> is_statement c \<longrightarrow> Q (c, x)"
    and Qe: "\<forall>x. Q (Cursor_execute cn query (bind_params params), x)"
    and Qc: "commit \<longrightarrow> (\<forall>x. Q (Conn_commit cn, x))"
  shows "grows Q s (snd (execute_query_returning d cn query params commit s))
       \<and> pool (snd (execute_query_returning d cn query params commit s)) = pool s"
proof -
  let ?s' = "snd (execute_query_returning d cn query params commit s)"
  let ?s1 = "snd (make_out_params d cn (out_keys params) s)"
  let ?s2 = "snd (call_drv d (Cursor_execute cn query (bind_params params)) ?s1)"
  let ?s3 = "snd (read_out_params d cn (out_keys params) ?s2)"
  let ?s4 = "snd (call_drv d (Conn_commit cn) ?s3)"
  have g1: "grows Q s ?s1" and p1: "pool ?s1 = pool s"
    using make_out_params_grows [OF Q, of s d cn "out_keys params"] by simp_all
  have g2: "grows Q s ?s2"
    by (rule grows_trans [OF g1], rule grows_call) (simp add: Qe)
  have g3: "grows Q s ?s3" and p3: "pool ?s3 = pool s"
    using read_out_params_grows [OF Q, of ?s2 d cn "out_keys params"] grows_trans [OF g2] p1
    by simp_all
  have g4: "commit \<Longrightarrow> grows Q s ?s4"
    by (rule grows_trans [OF g3], rule grows_call) (simp add: Qc)
  have "?s' = ?s1 \<or> ?s' = ?s2 \<or> ?s' = ?s3 \<or> (commit \<and> ?s' = ?s4)"
    unfolding execute_query_returning_def
    by (simp add: call_drv_def split: prod.splits sum.splits option.splits)
  then show ?thesis using g1 g2 g3 g4 p1 p3 by auto
qed

lemma execute_query_plain_state:
  "snd (execute_query_plain d cn query params fetch_one commit is_ddl s) =
     (let s1 = snd (call_drv d (Cursor_execute cn query (in_binds params)) s) in
      if raises d (trace s) (Cursor_execute cn query (in_binds params)) \<noteq> None then s1
      else if is_ddl \<or> commit then snd (call_drv d (Conn_commit cn) s1)
      else if fetch_one then snd (call_drv d (Cursor_fetchone cn) s1)
      else snd (call_drv d (Cursor_fetchall cn) s1))"
  unfolding execute_query_plain_def Let_def
  by (simp add: call_drv_def split: option.splits)

lemma execute_query_plain_grows:
  assumes Q: "\<forall>c x. \<not> is_statement c \<longrightarrow> Q (c, x)"
    and Qe: "\<forall>x. Q (Cursor_execute cn query (in_binds params), x)"
    and Qc: "commit \<or> is_ddl \<longrightarrow> (\<forall>x. Q (Conn_commit cn, x))"
  shows "grows Q s (snd (execute_query_plain d cn query params fetch_one commit is_ddl s))
       \<and> pool (snd (execute_query_plain d cn query params fetch_one commit is_ddl s)) = pool s"
proof -
  let ?s1 = "snd (call_drv d (Cursor_execute cn query (in_binds params)) s)"
  have g1: "grows Q s ?s1" by (rule grows_call) (simp add: Qe)
  have g2: "commit \<or> is_ddl \<Longrightarrow> grows Q s (snd (call_drv d (Conn_commit cn) ?s1))"
    by (rule grows_trans [OF g1], rule grows_call) (simp add: Qc)
  have g3: "grows Q s (snd (call_drv d (Cursor_fetchone cn) ?s1))"
    by (rule grows_trans [OF g1], rule grows_call) (simp add: Q)
  have g4: "grows Q s (snd (call_drv d (Cursor_fetchall cn) ?s1))"
    by (rule grows_trans [OF g1], rule grows_call) (simp add: Q)
  show ?thesis
    unfolding execute_query_plain_state Let_def using g1 g2 g3 g4 by auto
qed

lemma execute_query_run_grows:
  fixes d cn query params fetch_one commit is_ddl s
  defines "Q \<equiv> runs_only [(query, binds_sent d query params)] (commit \<or> is_ddl)"
  defines "s' \<equiv> snd (execute_query_run d cn query params fetch_one commit is_ddl s)"
  shows "grows Q s s' \<and> pool s' = pool s"
proof -
  have Q: "\<forall>c x. \<not> is_statement c \<longrightarrow> Q (c, x)"
    unfolding Q_def by (rule runs_only_other)
  show ?thesis
  proof (cases "contains (upper d query) ''RETURNING'' \<and> truthy_params params")
    case True
    then have b: "binds_sent d query params = bind_params (params_or_empty params)"
      by (simp add: binds_sent_def)
    have s': "s' = snd (execute_query_returning d cn query (params_or_empty params) commit s)"
      unfolding s'_def execute_query_run_def using True by simp
    show ?thesis
      unfolding s' by (rule execute_query_returning_grows [OF Q]) (simp_all add: Q_def b)
  next
    case False
    then have b: "binds_sent d query params = in_binds (params_or_empty params)"
      by (auto simp: binds_sent_def)
    have s': "s' = snd (execute_query_plain d cn query (params_or_empty params) fetch_one commit is_ddl s)"
      unfolding s'_def execute_query_run_def using False by auto
    show ?thesis
      unfolding s' by (rule execute_query_plain_grows [OF Q]) (auto simp: Q_def b)
  qed
qed

lemma reset_pool_grows:
  assumes Q: "\<forall>c x. \<not> is_statement c \<longrightarrow> Q (c, x)"
  shows "grows Q s (snd (reset_pool d cfg s))"
proof (cases "pool s")
  case None
  then show ?thesis by (simp add: reset_pool_def init_oracle_pool_grows [OF Q])
next
  case (Some p)
  let ?s1 = "(snd (call_drv d (Pool_close p) s))\<lparr>pool := None\<rparr>"
  have "grows Q s ?s1" using grows_call [of Q "Pool_close p" d s] Q by simp
  moreover have "grows Q ?s1 (snd (init_oracle_pool d cfg ?s1))"
    by (rule init_oracle_pool_grows [OF Q])
  ultimately show ?thesis using Some by (simp add: reset_pool_def) (blast intro: grows_trans)
qed

lemma execute_query_except_grows:
  assumes Q: "\<forall>c x. \<not> is_statement c \<longrightarrow> Q (c, x)"
  shows "grows Q s (snd (execute_query_except d cfg e s))"
proof -
  have "snd (execute_query_except d cfg e s) = s
      \<or> snd (execute_query_except d cfg e s) = snd (reset_pool d cfg s)"
    by (auto simp: execute_query_except_def split: exn.splits prod.splits sum.splits)
  then show ?thesis using reset_pool_grows [OF Q, of s d cfg] by auto
qed

lemma execute_query_finally_state:
  "snd (execute_query_finally d conn cursor r s) =
     (case conn of
        None \<Rightarrow> s
      | Some cn \<Rightarrow>
          (if cursor \<and> raises d (trace s) (Cursor_close cn) \<noteq> None
           then snd (call_drv d (Cursor_close cn) s)
           else (case pool s of
                   None \<Rightarrow> (if cursor then snd (call_drv d (Cursor_close cn) s) else s)
                 | Some p \<Rightarrow>
                     snd (call_drv d (Pool_release p cn)
                            (if cursor then snd (call_drv d (Cursor_close cn) s) else s)))))"
  by (auto simp: execute_query_finally_def call_drv_def split: option.splits)

lemma execute_query_finally_grows:
  assumes Q: "\<forall>c x. \<not> is_statement c \<longrightarrow> Q (c, x)"
  shows "grows Q s (snd (execute_query_finally d conn cursor r s))
       \<and> pool (snd (execute_query_finally d conn cursor r s)) = pool s"
proof (cases conn)
  case None
  then show ?thesis by (simp add: execute_query_finally_def)
next
  case (Some cn)
  let ?s1 = "if cursor then snd (call_drv d (Cursor_close cn) s) else s"
  have g1: "grows Q s ?s1" using grows_call [of Q "Cursor_close cn" d s] Q by simp
  have g2: "\<And>p. grows Q s (snd (call_drv d (Pool_release p cn) ?s1))"
    by (rule grows_trans [OF g1], rule grows_call) (simp add: Q)
  show ?thesis
    unfolding execute_query_finally_state using Some g1 g2
    by (cases cursor) (auto split: option.splits)
qed

lemma execute_query_try_grows:
  fixes d cfg query params fetch_one commit is_ddl s
  defines "Q \<equiv> runs_only [(query, binds_sent d query params)] (commit \<or> is_ddl)"
  shows "grows Q s (snd (execute_query_try d cfg query params fetch_one commit is_ddl s))"
proof -
  have Q: "\<forall>c x. \<not> is_statement c \<longrightarrow> Q (c, x)"
    unfolding Q_def by (rule runs_only_other)
  obtain r1 s1 where g: "get_db_connection d cfg s = (r1, s1)" by force
  have g1: "grows Q s s1" using get_db_connection_grows [OF Q, of s d cfg] g by simp
  show ?thesis
  proof (cases r1)
    case (Inl e)
    with g g1 show ?thesis by (simp add: execute_query_try_def)
  next
    case (Inr cn)
    let ?s2 = "snd (call_drv d (Conn_cursor cn) s1)"
    have g2: "grows Q s ?s2"
      by (rule grows_trans [OF g1], rule grows_call) (simp add: Q)
    show ?thesis
    proof (cases "raises d (trace s1) (Conn_cursor cn)")
      case (Some e)
      with g Inr g2 show ?thesis by (simp add: execute_query_try_def call_drv_def)
    next
      case None
      have "grows Q ?s2 (snd (execute_query_run d cn query params fetch_one commit is_ddl ?s2))"
        unfolding Q_def using execute_query_run_grows by blast
      with g2 have "grows Q s (snd (execute_query_run d cn query params fetch_one commit is_ddl ?s2))"
        by (rule grows_trans)
      with g Inr None show ?thesis
        by (auto simp: execute_query_try_def call_drv_def split: prod.splits)
    qed
  qed
qed

lemma execute_query_grows:
  "grows (runs_only [(query, binds_sent d query params)] (commit \<or> is_ddl)) s
     (snd (execute_query d cfg query params fetch_one commit is_ddl s))"
proof -
  let ?Q = "runs_only [(query, binds_sent d query params)] (commit \<or> is_ddl)"
  have Q: "\<forall>c x. \<not> is_statement c \<longrightarrow> ?Q (c, x)" by (rule runs_only_other)
  obtain r conn cursor s1 where
    t: "execute_query_try d cfg query params fetch_one commit is_ddl s = ((r, conn, cursor), s1)"
    by (metis prod.exhaust)
  have g1: "grows ?Q s s1"
    using execute_query_try_grows [where query = query and params = params and commit = commit
        and is_ddl = is_ddl and s = s and d = d and cfg = cfg and fetch_one = fetch_one] t
    by simp
  show ?thesis
  proof (cases r)
    case (Inr v)
    have "grows ?Q s1 (snd (execute_query_finally d conn cursor (Inr v) s1))"
      using execute_query_finally_grows [OF Q] by blast
    from grows_trans [OF g1 this] t Inr show ?thesis
      by (simp add: execute_query_def)
  next
    case (Inl e)
    obtain e' s2 where x: "execute_query_except d cfg e s1 = (e', s2)" by force
    have g2: "grows ?Q s1 s2" using execute_query_except_grows [OF Q, of s1 d cfg e] x by simp
    have g3: "grows ?Q s2 (snd (execute_query_finally d conn cursor (Inl e') s2))"
      using execute_query_finally_grows [OF Q] by blast
    from grows_trans [OF grows_trans [OF g1 g2] g3] t Inl x show ?thesis
      by (simp add: execute_query_def)
  qed
qed

section \<open>The pool without configuration\<close>

lemma init_oracle_pool_incomplete:
  "\<not> config_complete cfg \<Longrightarrow> init_oracle_pool d cfg s = (Inr (), s)"
  by (auto simp: config_complete_def init_oracle_pool_def split: option.splits)

text \<open>
  When the configuration is incomplete, the startup hook returns normally and leaves the
  pool absent, \<open>init_oracle_pool\<close> returns normally without touching the state, and a
  call of \<open>get_db_connection\<close> on an absent pool makes its one attempt to initialize and
  raises the 503 of line 83, leaving the state as it was (so the next call does the same).
\<close>

lemma get_db_connection_unavailable:
  assumes "\<not> config_complete cfg"
  shows "startup_event d cfg initial_state = (Inr (), initial_state)"
    and "init_oracle_pool d cfg s = (Inr (), s)"
    and "pool s = None \<Longrightarrow>
           get_db_connection d cfg s = (Inl (HTTPException 503 msg_pool_nao_inicializado), s)"
  using assms
  by (simp_all add: startup_event_def init_oracle_pool_incomplete get_db_connection_def)

text \<open>
  That 503 is raised inside the \<open>try\<close> block of \<open>execute_query\<close>, the only caller of
  \<open>get_db_connection\<close>. An \<open>HTTPException\<close> is an \<open>Exception\<close>, so the clause of line 146
  catches it and raises a 500 in its place.
\<close>

lemma execute_query_unavailable:
  assumes "pool s = None" and "\<not> config_complete cfg"
  shows "execute_query d cfg query params fetch_one commit is_ddl s
           = (Inl (HTTPException 500
                (''Erro interno do servidor: '' @ str_exn (HTTPException 503 msg_pool_nao_inicializado))), s)"
  using assms
  by (simp add: execute_query_def execute_query_try_def get_db_connection_def
      init_oracle_pool_incomplete execute_query_except_def execute_query_finally_def)

lemma unconfigured_incomplete: "\<not> config_complete unconfigured"
  by (simp add: config_complete_def unconfigured_def)

text \<open>
  C6. The claim is that a missing configuration does not crash the startup and surfaces
  as a 503 on first use. With none of the four variables set, the startup hook and
  \<open>init_oracle_pool\<close> do return normally, the pool stays absent, and the first
  acquisition does make its one attempt and raise the 503 of line 83, whatever the driver.
  But that 503 does not reach the caller: every use of the database goes through
  \<open>execute_query\<close>, which answers 500 with the text of the 503 in its detail, for every
  statement and mode, and the state is left as it was, so every later use ends the same
  way. The first \<open>GET\<close> of a person, shelter or donation is such a use.
\<close>

theorem missing_configuration_surfaces_as_500:
  "startup_event d unconfigured initial_state = (Inr (), initial_state)
   \<and> init_oracle_pool d unconfigured initial_state = (Inr (), initial_state)
   \<and> get_db_connection d unconfigured initial_state
       = (Inl (HTTPException 503 msg_pool_nao_inicializado), initial_state)
   \<and> execute_query d unconfigured query params fetch_one commit is_ddl initial_state
       = (Inl (HTTPException 500
            (''Erro interno do servidor: '' @ str_exn (HTTPException 503 msg_pool_nao_inicializado))),
          initial_state)
   \<and> obter d unconfigured e ident initial_state
       = (Inl (HTTPException 500
            (''Erro interno do servidor: '' @ str_exn (HTTPException 503 msg_pool_nao_inicializado))),
          initial_state)
   \<and> str_exn (HTTPException 503 msg_pool_nao_inicializado) = ''503: '' @ msg_pool_nao_inicializado"
proof -
  have i: "pool initial_state = None" by (simp add: initial_state_def)
  note u = unconfigured_incomplete
  have o: "obter d unconfigured e ident initial_state
       = (Inl (HTTPException 500
            (''Erro interno do servidor: '' @ str_exn (HTTPException 503 msg_pool_nao_inicializado))),
          initial_state)"
    by (cases e)
       (simp_all add: obter_pessoa_def obter_abrigo_def obter_doacao_def
          execute_query_unavailable [OF i u])
  have n: "str_exn (HTTPException 503 msg_pool_nao_inicializado) = ''503: '' @ msg_pool_nao_inicializado"
    by code_simp
  from get_db_connection_unavailable(1) [OF u, of d]
       get_db_connection_unavailable(2) [OF u, of d initial_state]
       get_db_connection_unavailable(3) [OF u i, of d]
       execute_query_unavailable [OF i u, of d query params fetch_one commit is_ddl] o n
  show ?thesis by blast
qed

section \<open>Connection errors and the pool\<close>

lemma init_oracle_pool_in_trace:
  "pool_in_trace s \<Longrightarrow> pool_in_trace (snd (init_oracle_pool d cfg s))"
  by (auto simp: init_oracle_pool_def call_drv_def pool_in_trace_def split: option.splits)

lemma pool_acquire_in_trace:
  "pool_in_trace s \<Longrightarrow> pool_in_trace (snd (pool_acquire d p s))"
  by (auto simp: pool_acquire_def call_drv_def pool_in_trace_def split: option.splits)

lemma get_db_connection_in_trace:
  assumes "pool_in_trace s"
  shows "pool_in_trace (snd (get_db_connection d cfg s))"
proof (cases "pool s")
  case (Some p)
  with assms show ?thesis by (simp add: get_db_connection_def pool_acquire_in_trace)
next
  case None
  let ?s1 = "snd (init_oracle_pool d cfg s)"
  have i: "pool_in_trace ?s1" by (rule init_oracle_pool_in_trace [OF assms])
  show ?thesis
  proof (cases "pool ?s1")
    case None
    with \<open>pool s = None\<close> i show ?thesis
      by (auto simp: get_db_connection_def split: prod.splits sum.splits)
  next
    case (Some p)
    with \<open>pool s = None\<close> i pool_acquire_in_trace [OF i, of d p] show ?thesis
      by (auto simp: get_db_connection_def split: prod.splits sum.splits)
  qed
qed

lemma grows_length: "grows Q s s' \<Longrightarrow> length (trace s) \<le> length (trace s')"
  unfolding grows_append by auto

text \<open>When the try block holds a connection, the global pool is the pool it came from.\<close>

lemma execute_query_try_conn:
  assumes t: "execute_query_try d cfg query params fetch_one commit is_ddl s = ((r, Some cn, cursor), s1)"
  shows "pool s1 = Some (fst cn)" and "pool_in_trace s \<Longrightarrow> fst cn < length (trace s1)"
proof -
  obtain r0 s0 where g: "get_db_connection d cfg s = (r0, s0)" by force
  from t g obtain c0 where r0: "r0 = Inr c0"
    by (cases r0) (auto simp: execute_query_try_def)
  have p0: "pool s0 = Some (fst c0)" using g r0 get_db_connection_pool by blast
  let ?s2 = "snd (call_drv d (Conn_cursor c0) s0)"
  let ?s3 = "snd (execute_query_run d c0 query params fetch_one commit is_ddl ?s2)"
  have cn: "cn = c0" and s1: "s1 = ?s2 \<or> s1 = ?s3"
    using t g r0
    by (auto simp: execute_query_try_def call_drv_def split: prod.splits option.splits)
  have p3: "pool ?s3 = pool ?s2" and g3: "grows (runs_only [(query, binds_sent d query params)] (commit \<or> is_ddl)) ?s2 ?s3"
    by (simp_all add: execute_query_run_grows)
  show "pool s1 = Some (fst cn)" using s1 cn p0 p3 by auto
  assume "pool_in_trace s"
  then have "pool_in_trace s0" using get_db_connection_in_trace [of s d cfg] g by simp
  then have "fst c0 < length (trace s0)" using p0 by (simp add: pool_in_trace_def)
  moreover have "length (trace s0) \<le> length (trace ?s2)" by simp
  moreover have "length (trace ?s2) \<le> length (trace ?s3)" using g3 by (rule grows_length)
  ultimately show "fst cn < length (trace s1)" using s1 cn by auto
qed














text \<open>A database error in the try block comes from a call on a connection.\<close>

lemma get_db_connection_error:
  "get_db_connection d cfg s = (Inl e, s1) \<Longrightarrow> \<not> is_oracledb_Error e"
  by (auto simp: get_db_connection_def pool_acquire_def init_oracle_pool_def call_drv_def
      split: option.splits if_splits prod.splits sum.splits)

lemma execute_query_try_database_error:
  assumes "execute_query_try d cfg query params fetch_one commit is_ddl s
             = ((Inl (DatabaseError code message), conn, cursor), s1)"
  shows "conn \<noteq> None"
proof
  assume "conn = None"
  with assms obtain s0 where "get_db_connection d cfg s = (Inl (DatabaseError code message), s0)"
    by (auto simp: execute_query_try_def split: prod.splits sum.splits option.splits)
  from get_db_connection_error [OF this] show False by simp
qed




lemma startup_ready:
  "startup_event lost_driver configured initial_state = (Inr (), ready)"
  "startup_event flaky_driver configured initial_state = (Inr (), ready)"
  by code_simp+

text \<open>
  C1. The claim is that the connection acquired by \<open>execute_query\<close> is released on every
  exit path. On the path of a connection error it is not: the handler rebinds the global
  \<open>pool\<close> (lines 143-144) and the \<open>finally\<close> block then calls \<open>pool.release\<close> on that
  global (line 153). Here the listener is gone, so the new pool cannot be created, the
  global is \<open>None\<close>, the attribute lookup raises, and the trace ends without any
  \<open>Pool_release\<close>: the caller sees an \<open>AttributeError\<close> and connection \<open>(0, 1)\<close> is
  never handed back.
\<close>

theorem connection_lost_leaks_connection:
  "execute_query lost_driver configured select_dual None False False False ready
   = (Inl (AttributeError msg_none_release),
      \<lparr>pool = None,
       trace = trace ready @
               [(Pool_acquire 0, None),
                (Conn_cursor (0, 1), None),
                (Cursor_execute (0, 1) select_dual [], Some (DatabaseError 3113 msg_eof)),
                (Pool_close 0, None),
                (SessionPool ''rm'' ''pw'' ''oracle.fiap.com.br:1521/orcl'',
                   Some (DatabaseError 12541 msg_no_listener)),
                (Cursor_close (0, 1), None)]\<rparr>)"
  by code_simp



section \<open>Duplicate CPF\<close>

lemma startswith_append: "startswith (p @ s) p"
  by (simp add: startswith_def)

lemma contains_iff: "contains s sub \<longleftrightarrow> (\<exists>a b. s = a @ sub @ b)"
proof (induction s)
  case Nil
  then show ?case by auto
next
  case (Cons c cs)
  show ?case
  proof
    assume "contains (c # cs) sub"
    then consider "startswith (c # cs) sub" | "contains cs sub" by auto
    then show "\<exists>a b. c # cs = a @ sub @ b"
    proof cases
      case 1
      then have "c # cs = [] @ sub @ drop (length sub) (c # cs)"
        unfolding startswith_def by (metis append_Nil append_take_drop_id)
      then show ?thesis by blast
    next
      case 2
      with Cons.IH obtain a b where "cs = a @ sub @ b" by blast
      then have "c # cs = (c # a) @ sub @ b" by simp
      then show ?thesis by blast
    qed
  next
    assume "\<exists>a b. c # cs = a @ sub @ b"
    then obtain a b where ab: "c # cs = a @ sub @ b" by blast
    show "contains (c # cs) sub"
    proof (cases a)
      case Nil
      with ab have "startswith (c # cs) sub" by (simp add: startswith_def)
      then show ?thesis by simp
    next
      case (Cons x a')
      with ab have "cs = a' @ sub @ b" by simp
      with Cons.IH have "contains cs sub" by blast
      then show ?thesis by simp
    qed
  qed
qed

lemma contains_appendI: "contains t sub \<Longrightarrow> contains (s @ t) sub"
  unfolding contains_iff by (metis append.assoc)

lemma contains_msg_cpf: "contains (msg_cpf_ja_cadastrado c) c"
  unfolding contains_iff msg_cpf_ja_cadastrado_def by blast

text \<open>A database error that is not a connection error leaves the pool alone and is reported as 500.\<close>

lemma execute_query_database_error:
  assumes t: "execute_query_try d cfg query params fetch_one commit is_ddl s
                = ((Inl (DatabaseError code message), Some cn, cursor), s1)"
    and code: "\<not> is_connection_error code"
    and cl: "\<forall>h. raises d h (Cursor_close cn) = None"
    and rl: "\<forall>h p. raises d h (Pool_release p cn) = None"
  shows "fst (execute_query d cfg query params fetch_one commit is_ddl s)
           = Inl (HTTPException 500 (''Erro no banco de dados Oracle: '' @ message))"
proof -
  have p1: "pool s1 = Some (fst cn)" using execute_query_try_conn(1) [OF t] .
  have x: "execute_query_except d cfg (DatabaseError code message) s1
             = (HTTPException 500 (''Erro no banco de dados Oracle: '' @ message), s1)"
    using code by (simp add: execute_query_except_def)
  show ?thesis
    using t x p1 cl rl
    by (simp add: execute_query_def execute_query_finally_def call_drv_def)
qed

text \<open>
  C3. When the insert of \<open>cadastrar_pessoa\<close> ends with a database error that reports the
  violated unique constraint (\<open>ORA-00001\<close> in its message, which is how the database
  reports a duplicate CPF), the route answers 409, and the detail of the 409 contains the
  CPF of the request. The cleanup calls of \<open>execute_query\<close> are taken not to raise.
\<close>

theorem duplicate_cpf_conflict:
  assumes t: "execute_query_try d cfg cadastrar_pessoa_query
                (Some (dict_set ''out_id_pessoa'' VNone (PessoaCreate_dict pessoa))) False True False s
                = ((Inl (DatabaseError code message), Some cn, cursor), s1)"
    and msg: "contains message ''ORA-00001''"
    and code: "\<not> is_connection_error code"
    and cl: "\<forall>h. raises d h (Cursor_close cn) = None"
    and rl: "\<forall>h p. raises d h (Pool_release p cn) = None"
  shows "fst (cadastrar_pessoa d cfg pessoa s)
           = Inl (HTTPException 409 (msg_cpf_ja_cadastrado (cpf pessoa)))
       \<and> contains (msg_cpf_ja_cadastrado (cpf pessoa)) (cpf pessoa)"
proof -
  let ?q = "execute_query d cfg cadastrar_pessoa_query
              (Some (dict_set ''out_id_pessoa'' VNone (PessoaCreate_dict pessoa))) False True False s"
  have e: "fst ?q = Inl (HTTPException 500 (''Erro no banco de dados Oracle: '' @ message))"
    by (rule execute_query_database_error [OF t code cl rl])
  have c: "contains (''Erro no banco de dados Oracle: '' @ message) ''ORA-00001''"
    by (rule contains_appendI [OF msg])
  obtain s2 where q: "?q = (Inl (HTTPException 500 (''Erro no banco de dados Oracle: '' @ message)), s2)"
    using e by (cases ?q) auto
  have "fst (cadastrar_pessoa d cfg pessoa s)
          = Inl (HTTPException 409 (msg_cpf_ja_cadastrado (cpf pessoa)))"
    unfolding cadastrar_pessoa_def q using c by simp
  then show ?thesis by (simp add: contains_msg_cpf)
qed

theorem duplicate_cpf_conflict_witness:
  "contains msg_unique ''ORA-00001'' \<and> \<not> is_connection_error 1
   \<and> fst (cadastrar_pessoa duplicate_driver configured maria ready)
       = Inl (HTTPException 409 (msg_cpf_ja_cadastrado ''12345678900''))"
proof -
  have t: "execute_query_try duplicate_driver configured cadastrar_pessoa_query
             (Some (dict_set ''out_id_pessoa'' VNone (PessoaCreate_dict maria))) False True False ready
           = ((Inl (DatabaseError 1 msg_unique), Some (0, 1), True),
              ready\<lparr>trace := trace ready @
                 [(Pool_acquire 0, None), (Conn_cursor (0, 1), None),
                  (Cursor_var (0, 1) ''out_id_pessoa'', None),
                  (Cursor_execute (0, 1) cadastrar_pessoa_query
                     (bind_params (dict_set ''out_id_pessoa'' VNone (PessoaCreate_dict maria))),
                   Some (DatabaseError 1 msg_unique))]\<rparr>)"
    by code_simp
  have msg: "contains msg_unique ''ORA-00001''" by code_simp
  have code: "\<not> is_connection_error 1" by (simp add: is_connection_error_def)
  have cl: "\<forall>h. raises duplicate_driver h (Cursor_close (0, 1)) = None"
    by (simp add: duplicate_driver_def)
  have rl: "\<forall>h p. raises duplicate_driver h (Pool_release p (0, 1)) = None"
    by (simp add: duplicate_driver_def)
  show ?thesis
    using duplicate_cpf_conflict [OF t msg code cl rl] msg code
    by (simp add: maria_def)
qed

section \<open>Rows and records\<close>

lemma upper_ascii: "is_ascii s \<Longrightarrow> upper d s = map char_upper s"
  by (simp add: upper_def)


lemma dict_set_fresh: "k \<notin> fst ` set d \<Longrightarrow> dict_set k v d = d @ [(k, v)]"
  by (induction d) auto

lemma execute_query_plain_ok:
  assumes ok: "\<forall>h c. raises d h c = None"
    and p: "pool s = Some p"
    and mode: "\<not> (contains (upper d query) ''RETURNING'' \<and> truthy_params params)"
  shows "execute_query d cfg query params True False False s =
     (Inr (case fetchone d (after_execute s p query (in_binds (params_or_empty params))) (conn_of s p) of
             None \<Rightarrow> RNone
           | Some row \<Rightarrow>
               if row = [] then RNone
               else RDict (row_dict d
                 (description d (after_execute s p query (in_binds (params_or_empty params))
                                  @ [(Cursor_fetchone (conn_of s p), None)]) (conn_of s p)) row)),
      s\<lparr>trace := after_execute s p query (in_binds (params_or_empty params))
                 @ [(Cursor_fetchone (conn_of s p), None),
                    (Cursor_close (conn_of s p), None), (Pool_release p (conn_of s p), None)]\<rparr>)"
proof -
  let ?cn = "conn_of s p"
  let ?b = "in_binds (params_or_empty params)"
  let ?s1 = "s\<lparr>trace := trace s @ [(Pool_acquire p, None)]\<rparr>"
  let ?s2 = "s\<lparr>trace := trace s @ [(Pool_acquire p, None), (Conn_cursor ?cn, None)]\<rparr>"
  have g: "get_db_connection d cfg s = (Inr ?cn, ?s1)"
    using ok p by (simp add: get_db_connection_def pool_acquire_def call_drv_def conn_of_def)
  have r: "execute_query_run d ?cn query params True False False ?s2 =
             execute_query_plain d ?cn query (params_or_empty params) True False False ?s2"
    using mode by (auto simp: execute_query_run_def)
  have t: "execute_query_try d cfg query params True False False s =
             ((fst (execute_query_plain d ?cn query (params_or_empty params) True False False ?s2),
               Some ?cn, True),
              snd (execute_query_plain d ?cn query (params_or_empty params) True False False ?s2))"
    using ok g r by (simp add: execute_query_try_def call_drv_def split: prod.splits)
  show ?thesis
    unfolding execute_query_def t using ok p
    by (simp add: execute_query_plain_def execute_query_finally_def call_drv_def
        after_execute_def split: option.splits)
qed

text \<open>
  In multi-row mode the \<open>try\<close> block has no way to end but with an exception: one of
  the driver, or the \<open>SyntaxError\<close> of line 129. The handlers raise in their turn and
  the \<open>finally\<close> block either keeps what they raise or raises itself.
\<close>

lemma execute_query_plain_multi_row:
  "isl (fst (execute_query_plain d cn query params False False False s))"
  by (simp add: execute_query_plain_def call_drv_def split: option.splits)

lemma execute_query_try_multi_row:
  "isl (fst (fst (execute_query_try d cfg query None False False False s)))"
proof -
  obtain r1 s1 where g: "get_db_connection d cfg s = (r1, s1)" by force
  show ?thesis
  proof (cases r1)
    case (Inl e)
    with g show ?thesis by (simp add: execute_query_try_def)
  next
    case (Inr cn)
    let ?s2 = "snd (call_drv d (Conn_cursor cn) s1)"
    show ?thesis
    proof (cases "raises d (trace s1) (Conn_cursor cn)")
      case (Some e)
      with g Inr show ?thesis by (simp add: execute_query_try_def call_drv_def)
    next
      case None
      obtain r3 s3 where
        p: "execute_query_plain d cn query [] False False False ?s2 = (r3, s3)" by force
      have "isl r3" using execute_query_plain_multi_row [of d cn query "[]" ?s2] p by simp
      with g Inr None p show ?thesis
        by (simp add: execute_query_try_def execute_query_run_def call_drv_def)
    qed
  qed
qed

lemma execute_query_finally_isl:
  "isl r \<Longrightarrow> isl (fst (execute_query_finally d conn cursor r s))"
  by (simp add: execute_query_finally_def call_drv_def split: option.splits)

lemma execute_query_multi_row:
  "isl (fst (execute_query d cfg query None False False False s))"
proof -
  obtain r conn cursor s1 where
    t: "execute_query_try d cfg query None False False False s = ((r, conn, cursor), s1)"
    by (metis prod.exhaust)
  from execute_query_try_multi_row [of d cfg query s] t obtain e where r: "r = Inl e"
    by (cases r) simp_all
  obtain e' s2 where x: "execute_query_except d cfg e s1 = (e', s2)" by force
  show ?thesis
    using t r x execute_query_finally_isl [of "Inl e'" d conn cursor s2]
    by (simp add: execute_query_def)
qed

lemma listar_plain:
  "listar d cfg e s = execute_query d cfg (listar_query e) None False False False s"
  by (cases e) (simp_all add: listar_pessoas_def listar_abrigos_def listar_doacoes_def)

lemma listar_query_order_each:
  "endswith (listar_query Pessoa) ('' ORDER BY '' @ order_by Pessoa) \<and> \<not> contains (listar_query Pessoa) ''WHERE''"
  "endswith (listar_query Abrigo) ('' ORDER BY '' @ order_by Abrigo) \<and> \<not> contains (listar_query Abrigo) ''WHERE''"
  "endswith (listar_query Doacao) ('' ORDER BY '' @ order_by Doacao) \<and> \<not> contains (listar_query Doacao) ''WHERE''"
  by code_simp+

lemma listar_query_order:
  "endswith (listar_query e) ('' ORDER BY '' @ order_by e) \<and> \<not> contains (listar_query e) ''WHERE''"
  using listar_query_order_each by (cases e) blast+

text \<open>
  C5. The claim is that \<open>execute_query\<close> returns one record or \<open>None\<close> in single-row
  mode and the ordered sequence of the records in multi-row mode. The single-row half is
  what lines 120-125 do: against a database that answers \<open>SELECT 1 FROM DUAL\<close> with the
  columns \<open>ID_DOACAO\<close>, \<open>DATA_DOACAO\<close> the call returns the record of the first row under
  the lower-cased names. The multi-row half is what line 129 was written for, and the line
  does not parse: the same database delivers two rows to \<open>fetchall\<close>, and the call ends
  with an exception instead of the list of their two records. That is so for every
  statement sent without parameters (as the list routes send theirs), every driver,
  configuration and state: in multi-row mode no such call returns a value, the empty
  sequence included.
\<close>

theorem multi_row_mode_returns_no_sequence:
  "isl (fst (execute_query d cfg query None False False False s))
   \<and> execute_query listing_driver configured select_dual None True False False ready
       = (Inr (RDict [(''id_doacao'', VInt 2), (''data_doacao'', VDatetime 20)]),
          \<lparr>pool = Some 0,
           trace = trace ready @
             [(Pool_acquire 0, None), (Conn_cursor (0, 1), None),
              (Cursor_execute (0, 1) select_dual [], None), (Cursor_fetchone (0, 1), None),
              (Cursor_close (0, 1), None), (Pool_release 0 (0, 1), None)]\<rparr>)
   \<and> fetchall listing_driver (after_execute ready 0 select_dual []) (0, 1)
       = [[VInt 2, VDatetime 20], [VInt 1, VDatetime 10]]
   \<and> execute_query listing_driver configured select_dual None False False False ready
       = (Inl (HTTPException 500 (''Erro interno do servidor: '' @ msg_line_129)),
          \<lparr>pool = Some 0,
           trace = trace ready @
             [(Pool_acquire 0, None), (Conn_cursor (0, 1), None),
              (Cursor_execute (0, 1) select_dual [], None), (Cursor_fetchall (0, 1), None),
              (Cursor_close (0, 1), None), (Pool_release 0 (0, 1), None)]\<rparr>)
   \<and> isl (fst (execute_query quiet_driver configured select_dual None False False False ready))"
proof -
  have 1: "isl (fst (execute_query d cfg query None False False False s))"
    by (rule execute_query_multi_row)
  have 2: "execute_query listing_driver configured select_dual None True False False ready
       = (Inr (RDict [(''id_doacao'', VInt 2), (''data_doacao'', VDatetime 20)]),
          \<lparr>pool = Some 0,
           trace = trace ready @
             [(Pool_acquire 0, None), (Conn_cursor (0, 1), None),
              (Cursor_execute (0, 1) select_dual [], None), (Cursor_fetchone (0, 1), None),
              (Cursor_close (0, 1), None), (Pool_release 0 (0, 1), None)]\<rparr>)"
    by code_simp
  have 3: "fetchall listing_driver (after_execute ready 0 select_dual []) (0, 1)
       = [[VInt 2, VDatetime 20], [VInt 1, VDatetime 10]]"
    by (simp add: listing_driver_def)
  have 4: "execute_query listing_driver configured select_dual None False False False ready
       = (Inl (HTTPException 500 (''Erro interno do servidor: '' @ msg_line_129)),
          \<lparr>pool = Some 0,
           trace = trace ready @
             [(Pool_acquire 0, None), (Conn_cursor (0, 1), None),
              (Cursor_execute (0, 1) select_dual [], None), (Cursor_fetchall (0, 1), None),
              (Cursor_close (0, 1), None), (Pool_release 0 (0, 1), None)]\<rparr>)"
    by code_simp
  have 5: "isl (fst (execute_query quiet_driver configured select_dual None False False False ready))"
    by (rule execute_query_multi_row)
  from 1 2 3 4 5 show ?thesis by blast
qed

text \<open>
  C8. The claim is that every list route returns all the records of its resource in the
  documented order. Each of the three routes does send its statement, which has no WHERE
  clause and ends in \<open>ORDER BY NOME\<close> (persons, shelters) or \<open>ORDER BY DATA_DOACAO DESC\<close>
  (donations); but the rows come back through line 129, so no list route ever returns a
  list, whatever the driver, the configuration and the state. With two donations in the
  database, delivered latest first, \<open>GET /doacoes\<close> ends with an exception after the
  rows were fetched.
\<close>

theorem list_routes_return_no_list:
  "isl (fst (listar d cfg e s))
   \<and> endswith (listar_query e) ('' ORDER BY '' @ order_by e)
   \<and> \<not> contains (listar_query e) ''WHERE''
   \<and> fetchall listing_driver (after_execute ready 0 listar_doacoes_query []) (0, 1)
       = [[VInt 2, VDatetime 20], [VInt 1, VDatetime 10]]
   \<and> listar listing_driver configured Doacao ready
       = (Inl (HTTPException 500 (''Erro interno do servidor: '' @ msg_line_129)),
          \<lparr>pool = Some 0,
           trace = trace ready @
             [(Pool_acquire 0, None), (Conn_cursor (0, 1), None),
              (Cursor_execute (0, 1) listar_doacoes_query [], None), (Cursor_fetchall (0, 1), None),
              (Cursor_close (0, 1), None), (Pool_release 0 (0, 1), None)]\<rparr>)"
proof -
  have 1: "isl (fst (listar d cfg e s))"
    unfolding listar_plain by (rule execute_query_multi_row)
  have 2: "fetchall listing_driver (after_execute ready 0 listar_doacoes_query []) (0, 1)
       = [[VInt 2, VDatetime 20], [VInt 1, VDatetime 10]]"
    by (simp add: listing_driver_def)
  have 3: "listar listing_driver configured Doacao ready
       = (Inl (HTTPException 500 (''Erro interno do servidor: '' @ msg_line_129)),
          \<lparr>pool = Some 0,
           trace = trace ready @
             [(Pool_acquire 0, None), (Conn_cursor (0, 1), None),
              (Cursor_execute (0, 1) listar_doacoes_query [], None), (Cursor_fetchall (0, 1), None),
              (Cursor_close (0, 1), None), (Pool_release 0 (0, 1), None)]\<rparr>)"
    by code_simp
  from 1 2 3 listar_query_order [of e] show ?thesis by blast
qed

section \<open>Statistics\<close>








lemma obter_estatisticas_outcome:
  "(\<exists>m. fst (obter_estatisticas d cfg s) = Inl (HTTPException 500 (msg_erro_estatisticas m)))
   \<or> (\<exists>v1 v2 v3 v4 v5 v6. fst (obter_estatisticas d cfg s) =
         Inr [(''total_pessoas'', v1), (''pessoas_desabrigadas'', v2), (''total_abrigos'', v3),
              (''vagas_disponiveis'', v4), (''total_doacoes'', v5), (''doacoes_pendentes'', v6)])"
  by (auto simp: obter_estatisticas_def obter_estatisticas_try_def split: sum.splits prod.splits)


lemma statement_just_run_snoc [simp]:
  "statement_just_run (h @ [(Cursor_execute cn q b, r)]) = q"
  by (simp add: statement_just_run_def)


text \<open>
  C9. Whatever the six reads raise, the statistics route raises \<open>HTTPException 500\<close>: its
  handler catches every \<open>Exception\<close>. So its caller never sees a 503. With no pool and no
  configuration, \<open>get_db_connection\<close> raises the 503 of line 83 inside the first read;
  \<open>execute_query\<close> turns it into a 500 and the route wraps that in its own 500.
\<close>

theorem statistics_never_503:
  "fst (obter_estatisticas d cfg s) \<noteq> Inl (HTTPException 503 detail)
   \<and> (obter_estatisticas_try d cfg s = (Inl e, s1) \<longrightarrow>
        obter_estatisticas d cfg s = (Inl (HTTPException 500 (msg_erro_estatisticas (str_exn e))), s1))
   \<and> (pool s = None \<and> \<not> config_complete cfg \<longrightarrow>
        get_db_connection d cfg s = (Inl (HTTPException 503 msg_pool_nao_inicializado), s)
        \<and> fst (obter_estatisticas d cfg s) =
            Inl (HTTPException 500 (msg_erro_estatisticas (str_exn (HTTPException 500
              (''Erro interno do servidor: '' @ str_exn (HTTPException 503 msg_pool_nao_inicializado)))))))"
proof -
  have 1: "fst (obter_estatisticas d cfg s) \<noteq> Inl (HTTPException 503 detail)"
    using obter_estatisticas_outcome [of d cfg s] by auto
  have 2: "obter_estatisticas_try d cfg s = (Inl e, s1) \<longrightarrow>
        obter_estatisticas d cfg s = (Inl (HTTPException 500 (msg_erro_estatisticas (str_exn e))), s1)"
    by (simp add: obter_estatisticas_def)
  have 3: "get_db_connection d cfg s = (Inl (HTTPException 503 msg_pool_nao_inicializado), s)
        \<and> fst (obter_estatisticas d cfg s) =
            Inl (HTTPException 500 (msg_erro_estatisticas (str_exn (HTTPException 500
              (''Erro interno do servidor: '' @ str_exn (HTTPException 503 msg_pool_nao_inicializado))))))"
    if "pool s = None" "\<not> config_complete cfg"
    using that
    by (simp add: get_db_connection_def init_oracle_pool_incomplete obter_estatisticas_def
        obter_estatisticas_try_def fetch_total_def execute_query_unavailable)
  from 1 2 3 show ?thesis by blast
qed

theorem statistics_never_503_witness:
  "pool initial_state = None \<and> \<not> config_complete unconfigured
   \<and> get_db_connection quiet_driver unconfigured initial_state
       = (Inl (HTTPException 503 msg_pool_nao_inicializado), initial_state)
   \<and> fst (obter_estatisticas quiet_driver unconfigured initial_state) =
       Inl (HTTPException 500 (msg_erro_estatisticas (str_exn (HTTPException 500
         (''Erro interno do servidor: '' @ str_exn (HTTPException 503 msg_pool_nao_inicializado))))))"
proof -
  have i: "pool initial_state = None" "\<not> config_complete unconfigured"
    by (simp_all add: initial_state_def config_complete_def unconfigured_def)
  show ?thesis
    using statistics_never_503 [of quiet_driver unconfigured initial_state] i by blast
qed

section \<open>Partial updates\<close>

lemma obter_unfold:
  "obter d cfg e ident s =
     (case execute_query d cfg (obter_query e) (Some [(obter_param e, ident)]) True False False s of
        (Inl x, s1) \<Rightarrow> (Inl x, s1)
      | (Inr r, s1) \<Rightarrow>
          (if \<not> truthy_result r then (Inl (HTTPException 404 (msg_not_found e)), s1)
           else (Inr r, s1)))"
  by (cases e) (auto simp: obter_pessoa_def obter_abrigo_def obter_doacao_def split: prod.splits sum.splits)

lemma atualizar_unfold:
  "atualizar d cfg ident pl s =
     (case obter d cfg (payload_entity pl) (VInt ident) s of
        (Inl x, s1) \<Rightarrow> (Inl x, s1)
      | (Inr found, s1) \<Rightarrow>
          (if update_data pl = [] then (Inl (HTTPException 400 (msg_no_fields (payload_entity pl))), s1)
           else
             (case execute_query d cfg (atualizar_query d (payload_entity pl) (update_data pl))
                     (Some (dict_update (update_data pl) [(atualizar_param (payload_entity pl), VInt ident)]))
                     False True False s1 of
                (Inl x, s2) \<Rightarrow> (Inl x, s2)
              | (Inr u, s2) \<Rightarrow> obter d cfg (payload_entity pl) (VInt ident) s2)))"
  by (cases pl)
     (auto simp: atualizar_pessoa_def atualizar_abrigo_def atualizar_doacao_def
        split: prod.splits sum.splits)

lemma atualizar_query_set_clauses:
  "atualizar_query d e update_data' =
     ''UPDATE '' @ table_name e @ '' SET ''
     @ join '', '' (map (\<lambda>key. upper d key @ '' = :'' @ key) (map fst update_data'))
     @ '' WHERE '' @ id_column e @ '' = :'' @ atualizar_param e"
  by (cases e)
     (simp_all add: atualizar_pessoa_query_def atualizar_abrigo_query_def atualizar_doacao_query_def
        set_clauses_def)

lemma field_item_keys: "map fst (field_item k conv f) = (if given f then [k] else [])"
  by (cases f; cases "case f of Given x \<Rightarrow> x | Unset \<Rightarrow> None") auto

lemma present_cons:
  "map fst (filter snd ((k, b) # xs)) = (if b then [k] else []) @ map fst (filter snd xs)"
  by simp

lemma update_data_keys: "map fst (update_data pl) = map fst (filter snd (present pl))"
  by (cases pl)
     (simp_all only: update_data.simps present.simps PessoaUpdate_dict_def AbrigoUpdate_dict_def
        DoacaoUpdate_dict_def map_append field_item_keys present_cons filter.simps(1) list.map(1) append_Nil2)

lemma present_fields: "map fst (present pl) = update_fields (payload_entity pl)"
  by (cases pl) (simp_all add: PessoaUpdate_fields_def AbrigoUpdate_fields_def DoacaoUpdate_fields_def)

lemma update_data_keys_subset: "set (map fst (update_data pl)) \<subseteq> set (update_fields (payload_entity pl))"
  unfolding update_data_keys present_fields [symmetric] by auto

lemma obter_query_plain_each:
  "is_ascii (obter_query Pessoa) \<and> \<not> contains (map char_upper (obter_query Pessoa)) ''RETURNING''"
  "is_ascii (obter_query Abrigo) \<and> \<not> contains (map char_upper (obter_query Abrigo)) ''RETURNING''"
  "is_ascii (obter_query Doacao) \<and> \<not> contains (map char_upper (obter_query Doacao)) ''RETURNING''"
  by code_simp+

lemma obter_query_plain: "\<not> contains (upper d (obter_query e)) ''RETURNING''"
  using obter_query_plain_each by (cases e) (simp_all add: upper_ascii)

lemma obter_binds_sent:
  "binds_sent d (obter_query e) (Some [(k, v)]) = [(k, BVal v)]"
  by (simp add: binds_sent_def obter_query_plain in_binds_def)

lemma update_fields_ascii_each:
  "list_all is_ascii (update_fields Pessoa)"
  "list_all is_ascii (update_fields Abrigo)"
  "list_all is_ascii (update_fields Doacao)"
  by code_simp+

lemma update_fields_ascii: "list_all is_ascii (update_fields e)"
  using update_fields_ascii_each by (cases e) simp_all

text \<open>The keys of an update are ASCII names, so \<open>key.upper()\<close> is their ASCII upper case.\<close>

lemma atualizar_query_text:
  "atualizar_query d (payload_entity pl) (update_data pl) =
     ''UPDATE '' @ table_name (payload_entity pl) @ '' SET ''
     @ join '', '' (map (\<lambda>key. map char_upper key @ '' = :'' @ key) (map fst (update_data pl)))
     @ '' WHERE '' @ id_column (payload_entity pl) @ '' = :'' @ atualizar_param (payload_entity pl)"
proof -
  have "\<forall>key \<in> set (map fst (update_data pl)). is_ascii key"
    using update_data_keys_subset [of pl] update_fields_ascii [of "payload_entity pl"]
    unfolding list_all_iff by blast
  then have eq: "map (\<lambda>key. upper d key @ '' = :'' @ key) (map fst (update_data pl))
           = map (\<lambda>key. map char_upper key @ '' = :'' @ key) (map fst (update_data pl))"
    by (intro map_cong) (auto simp: upper_ascii)
  show ?thesis unfolding atualizar_query_set_clauses eq ..
qed

lemma no_out_fields_each:
  "list_all (\<lambda>k. \<not> startswith k ''out_'') (atualizar_param Pessoa # update_fields Pessoa)"
  "list_all (\<lambda>k. \<not> startswith k ''out_'') (atualizar_param Abrigo # update_fields Abrigo)"
  "list_all (\<lambda>k. \<not> startswith k ''out_'') (atualizar_param Doacao # update_fields Doacao)"
  "atualizar_param Pessoa \<notin> set (update_fields Pessoa)"
  "atualizar_param Abrigo \<notin> set (update_fields Abrigo)"
  "atualizar_param Doacao \<notin> set (update_fields Doacao)"
  by code_simp+

lemma no_out_fields:
  "list_all (\<lambda>k. \<not> startswith k ''out_'') (atualizar_param e # update_fields e)"
  "atualizar_param e \<notin> set (update_fields e)"
  using no_out_fields_each by (cases e; simp)+

lemma atualizar_params:
  "dict_update (update_data pl) [(atualizar_param (payload_entity pl), v)]
     = update_data pl @ [(atualizar_param (payload_entity pl), v)]"
proof -
  have "atualizar_param (payload_entity pl) \<notin> fst ` set (update_data pl)"
    using update_data_keys_subset [of pl] no_out_fields(2) [of "payload_entity pl"] by auto
  then show ?thesis by (simp add: dict_set_fresh)
qed

lemma atualizar_binds_sent:
  "binds_sent d q (Some (dict_update (update_data pl) [(atualizar_param (payload_entity pl), v)]))
     = in_binds (update_data pl) @ [(atualizar_param (payload_entity pl), BVal v)]"
proof -
  let ?e = "payload_entity pl"
  let ?ps = "update_data pl @ [(atualizar_param ?e, v)]"
  have "set (map fst ?ps) \<subseteq> set (atualizar_param ?e # update_fields ?e)"
    using update_data_keys_subset [of pl] by auto
  then have "\<forall>k \<in> set (map fst ?ps). \<not> startswith k ''out_''"
    using no_out_fields(1) [of ?e] unfolding list_all_iff by blast
  then have "out_keys ?ps = []"
    unfolding out_keys_def by (simp only: filter_False)
  then have "bind_params ?ps = in_binds ?ps" by (simp add: bind_params_def)
  then show ?thesis
    unfolding atualizar_params by (simp add: binds_sent_def in_binds_def)
qed

lemma runs_only_mono:
  "set al \<subseteq> set al' \<Longrightarrow> (mc \<longrightarrow> mc') \<Longrightarrow> runs_only al mc ev \<Longrightarrow> runs_only al' mc' ev"
  by (cases ev; cases "fst ev") auto

lemma obter_state:
  "snd (obter d cfg e ident s)
     = snd (execute_query d cfg (obter_query e) (Some [(obter_param e, ident)]) True False False s)"
  by (simp add: obter_unfold split: prod.splits sum.splits)

lemma obter_grows:
  "grows (runs_only [(obter_query e, [(obter_param e, BVal ident)])] False) s
     (snd (obter d cfg e ident s))"
  unfolding obter_state
  using execute_query_grows [where query = "obter_query e" and params = "Some [(obter_param e, ident)]"
      and commit = False and is_ddl = False and s = s and d = d and cfg = cfg and fetch_one = True]
  by (simp add: obter_binds_sent)

lemma atualizar_grows:
  fixes pl ident d
  defines "e \<equiv> payload_entity pl"
  defines "Q \<equiv> runs_only [(obter_query e, [(obter_param e, BVal (VInt ident))]),
                          (atualizar_query d e (update_data pl),
                             in_binds (update_data pl) @ [(atualizar_param e, BVal (VInt ident))])] True"
  shows "grows Q s (snd (atualizar d cfg ident pl s))"
proof -
  let ?sel = "(obter_query e, [(obter_param e, BVal (VInt ident))])"
  let ?upd = "(atualizar_query d e (update_data pl),
                 in_binds (update_data pl) @ [(atualizar_param e, BVal (VInt ident))])"
  have o: "\<And>s0. grows Q s0 (snd (obter d cfg e (VInt ident) s0))"
    unfolding Q_def
    by (rule grows_mono [OF obter_grows]) (auto intro: runs_only_mono [of "[?sel]" _ False])
  have u: "grows Q s0 (snd (execute_query d cfg (atualizar_query d e (update_data pl))
              (Some (dict_update (update_data pl) [(atualizar_param e, VInt ident)])) False True False s0))"
    for s0
  proof -
    have "grows (runs_only [?upd] (True \<or> False)) s0
            (snd (execute_query d cfg (atualizar_query d e (update_data pl))
              (Some (dict_update (update_data pl) [(atualizar_param e, VInt ident)])) False True False s0))"
      using execute_query_grows [where query = "atualizar_query d e (update_data pl)"
          and params = "Some (dict_update (update_data pl) [(atualizar_param e, VInt ident)])"
          and commit = True and is_ddl = False and s = s0 and d = d and cfg = cfg and fetch_one = False]
      unfolding e_def atualizar_binds_sent .
    then show ?thesis
      unfolding Q_def
      by (rule grows_mono) (auto intro: runs_only_mono [of "[?upd]" _ "True \<or> False"])
  qed
  let ?s1 = "snd (obter d cfg e (VInt ident) s)"
  let ?s2 = "snd (execute_query d cfg (atualizar_query d e (update_data pl))
              (Some (dict_update (update_data pl) [(atualizar_param e, VInt ident)])) False True False ?s1)"
  let ?s3 = "snd (obter d cfg e (VInt ident) ?s2)"
  have "snd (atualizar d cfg ident pl s) = ?s1 \<or> snd (atualizar d cfg ident pl s) = ?s2
      \<or> snd (atualizar d cfg ident pl s) = ?s3"
    unfolding atualizar_unfold e_def by (simp split: prod.splits sum.splits)
  moreover have "grows Q s ?s1" by (rule o)
  moreover have "grows Q s ?s2" by (rule grows_trans [OF o u])
  moreover have "grows Q s ?s3" by (rule grows_trans [OF grows_trans [OF o u] o])
  ultimately show ?thesis by auto
qed

text \<open>
  C4. For each of the three update routes, once the read that opens the route has
  returned: when it found no record the route raises the 404 of the get route, and when it
  found one but the payload has no field the route raises 400; in both cases the route
  ends in the state the read left, in which nothing was committed and no statement but
  the SELECT of the read was executed. Otherwise the route executes the UPDATE whose SET
  clause names exactly the fields given in the payload, in the order of the class, and
  returns what the get route returns in the state after that UPDATE. A database that
  delivers no row for the identity makes the read find no record.
\<close>

theorem partial_update:
  assumes get: "execute_query d cfg (obter_query (payload_entity pl))
                  (Some [(obter_param (payload_entity pl), VInt ident)]) True False False s = (Inr r, s1)"
  shows "(\<not> truthy_result r \<longrightarrow>
            atualizar d cfg ident pl s = (Inl (HTTPException 404 (msg_not_found (payload_entity pl))), s1))
       \<and> (truthy_result r \<and> update_data pl = [] \<longrightarrow>
            atualizar d cfg ident pl s = (Inl (HTTPException 400 (msg_no_fields (payload_entity pl))), s1))
       \<and> grows (runs_only [(obter_query (payload_entity pl),
                             [(obter_param (payload_entity pl), BVal (VInt ident))])] False) s s1
       \<and> (truthy_result r \<and> update_data pl \<noteq> [] \<longrightarrow>
            atualizar d cfg ident pl s =
              (case execute_query d cfg (atualizar_query d (payload_entity pl) (update_data pl))
                      (Some (dict_update (update_data pl) [(atualizar_param (payload_entity pl), VInt ident)]))
                      False True False s1 of
                 (Inl x, s2) \<Rightarrow> (Inl x, s2)
               | (Inr u, s2) \<Rightarrow> obter d cfg (payload_entity pl) (VInt ident) s2))
       \<and> atualizar_query d (payload_entity pl) (update_data pl) =
            ''UPDATE '' @ table_name (payload_entity pl) @ '' SET ''
            @ join '', '' (map (\<lambda>key. map char_upper key @ '' = :'' @ key) (map fst (filter snd (present pl))))
            @ '' WHERE '' @ id_column (payload_entity pl) @ '' = :'' @ atualizar_param (payload_entity pl)
       \<and> map fst (present pl) = update_fields (payload_entity pl)
       \<and> ((\<forall>h c. raises d h c = None) \<and> pool s = Some p
            \<and> fetchone d (after_execute s p (obter_query (payload_entity pl))
                             [(obter_param (payload_entity pl), BVal (VInt ident))]) (conn_of s p) = None
            \<longrightarrow> r = RNone)"
proof -
  let ?e = "payload_entity pl"
  have o: "obter d cfg ?e (VInt ident) s =
             (if \<not> truthy_result r then (Inl (HTTPException 404 (msg_not_found ?e)), s1) else (Inr r, s1))"
    using get by (simp add: obter_unfold)
  have 1: "\<not> truthy_result r \<longrightarrow>
            atualizar d cfg ident pl s = (Inl (HTTPException 404 (msg_not_found ?e)), s1)"
    using o by (simp add: atualizar_unfold)
  have 2: "truthy_result r \<and> update_data pl = [] \<longrightarrow>
            atualizar d cfg ident pl s = (Inl (HTTPException 400 (msg_no_fields ?e)), s1)"
    using o by (simp add: atualizar_unfold)
  have 3: "grows (runs_only [(obter_query ?e, [(obter_param ?e, BVal (VInt ident))])] False) s s1"
    using obter_grows [of ?e "VInt ident" s d cfg] get by (simp add: obter_state)
  have 4: "truthy_result r \<and> update_data pl \<noteq> [] \<longrightarrow>
            atualizar d cfg ident pl s =
              (case execute_query d cfg (atualizar_query d ?e (update_data pl))
                      (Some (dict_update (update_data pl) [(atualizar_param ?e, VInt ident)]))
                      False True False s1 of
                 (Inl x, s2) \<Rightarrow> (Inl x, s2)
               | (Inr u, s2) \<Rightarrow> obter d cfg ?e (VInt ident) s2)"
    using o by (simp add: atualizar_unfold)
  have 5: "atualizar_query d ?e (update_data pl) =
            ''UPDATE '' @ table_name ?e @ '' SET ''
            @ join '', '' (map (\<lambda>key. map char_upper key @ '' = :'' @ key) (map fst (filter snd (present pl))))
            @ '' WHERE '' @ id_column ?e @ '' = :'' @ atualizar_param ?e"
    unfolding atualizar_query_text update_data_keys ..
  have 6: "r = RNone"
    if ok: "\<forall>h c. raises d h c = None" and p: "pool s = Some p"
      and f: "fetchone d (after_execute s p (obter_query ?e) [(obter_param ?e, BVal (VInt ident))])
                (conn_of s p) = None"
  proof -
    have mode: "\<not> (contains (upper d (obter_query ?e)) ''RETURNING''
                   \<and> truthy_params (Some [(obter_param ?e, VInt ident)]))"
      by (simp add: obter_query_plain)
    show ?thesis
      using execute_query_plain_ok [OF ok p mode, of cfg] get f
      by (simp add: in_binds_def)
  qed
  from 1 2 3 4 5 6 present_fields [of pl] show ?thesis by blast
qed

theorem partial_update_witness:
  "fst (atualizar quiet_driver configured 7 (DoacaoPayload only_status) ready)
     = Inl (HTTPException 404 msg_doacao_nao_encontrada)
   \<and> fst (atualizar listing_driver configured 7 (DoacaoPayload nothing_given) ready)
     = Inl (HTTPException 400 msg_nenhum_dado)
   \<and> fst (atualizar listing_driver configured 7 (DoacaoPayload only_status) ready)
     = Inr (RDict [(''id_doacao'', VInt 2), (''data_doacao'', VDatetime 20)])
   \<and> atualizar_query listing_driver Doacao (update_data (DoacaoPayload only_status)) = update_status_query"
proof -
  let ?sel = "[(Pool_acquire 0, None), (Conn_cursor (0, 1), None),
               (Cursor_execute (0, 1) obter_doacao_query [(''id_doacao'', BVal (VInt 7))], None),
               (Cursor_fetchone (0, 1), None), (Cursor_close (0, 1), None),
               (Pool_release 0 (0, 1), None)]"
  let ?s1 = "ready\<lparr>trace := trace ready @ ?sel\<rparr>"
  have g1: "execute_query quiet_driver configured (obter_query (payload_entity (DoacaoPayload only_status)))
              (Some [(obter_param (payload_entity (DoacaoPayload only_status)), VInt 7)])
              True False False ready = (Inr RNone, ?s1)"
    by code_simp
  have g2: "execute_query listing_driver configured (obter_query (payload_entity (DoacaoPayload nothing_given)))
              (Some [(obter_param (payload_entity (DoacaoPayload nothing_given)), VInt 7)])
              True False False ready
            = (Inr (RDict [(''id_doacao'', VInt 2), (''data_doacao'', VDatetime 20)]), ?s1)"
    by code_simp
  have g3: "execute_query listing_driver configured (obter_query (payload_entity (DoacaoPayload only_status)))
              (Some [(obter_param (payload_entity (DoacaoPayload only_status)), VInt 7)])
              True False False ready
            = (Inr (RDict [(''id_doacao'', VInt 2), (''data_doacao'', VDatetime 20)]), ?s1)"
    by code_simp
  have e: "update_data (DoacaoPayload nothing_given) = []"
          "update_data (DoacaoPayload only_status) \<noteq> []"
    by code_simp+
  have q: "''UPDATE '' @ table_name Doacao @ '' SET ''
            @ join '', '' (map (\<lambda>key. map char_upper key @ '' = :'' @ key)
                 (map fst (filter snd (present (DoacaoPayload only_status)))))
            @ '' WHERE '' @ id_column Doacao @ '' = :'' @ atualizar_param Doacao = update_status_query"
    by code_simp
  have u: "fst (case execute_query listing_driver configured
                  (atualizar_query listing_driver (payload_entity (DoacaoPayload only_status)) (update_data (DoacaoPayload only_status)))
                  (Some (dict_update (update_data (DoacaoPayload only_status))
                     [(atualizar_param (payload_entity (DoacaoPayload only_status)), VInt 7)]))
                  False True False ?s1 of
                 (Inl x, s2) \<Rightarrow> (Inl x, s2)
               | (Inr u, s2) \<Rightarrow> obter listing_driver configured (payload_entity (DoacaoPayload only_status)) (VInt 7) s2)
           = Inr (RDict [(''id_doacao'', VInt 2), (''data_doacao'', VDatetime 20)])"
    by code_simp
  show ?thesis
    using partial_update [OF g1] partial_update [OF g2] partial_update [OF g3] e q u
    by (simp add: msg_doacao_nao_encontrada_def)
qed

text \<open>
  C10. In each of the three update routes, the keys that are written into the text of the
  UPDATE are keys of the dict of the given fields, so they are among the field names the
  partial-update class declares; the text is made of those keys and of constants only.
  Every statement execution of the route is either the SELECT of the get route, with the
  identity as its one bind value, or that UPDATE, with the given values and the identity
  in its bind dictionary.
\<close>

theorem update_binds_values:
  "set (map fst (update_data pl)) \<subseteq> set (update_fields (payload_entity pl))
   \<and> map fst (update_data pl) = map fst (filter snd (present pl))
   \<and> atualizar_query d (payload_entity pl) (update_data pl) =
        ''UPDATE '' @ table_name (payload_entity pl) @ '' SET ''
        @ join '', '' (map (\<lambda>key. map char_upper key @ '' = :'' @ key) (map fst (update_data pl)))
        @ '' WHERE '' @ id_column (payload_entity pl) @ '' = :'' @ atualizar_param (payload_entity pl)
   \<and> grows (runs_only
        [(obter_query (payload_entity pl), [(obter_param (payload_entity pl), BVal (VInt ident))]),
         (atualizar_query d (payload_entity pl) (update_data pl),
            in_binds (update_data pl) @ [(atualizar_param (payload_entity pl), BVal (VInt ident))])] True)
        s (snd (atualizar d cfg ident pl s))"
  using update_data_keys_subset [of pl] update_data_keys [of pl]
        atualizar_query_text [of d pl]
        atualizar_grows [where s = s and d = d and cfg = cfg and ident = ident and pl = pl]
  by blast

theorem update_binds_values_witness:
  "atualizar_query listing_driver Doacao (update_data (DoacaoPayload only_status)) = update_status_query
   \<and> added ready (snd (atualizar listing_driver configured 7 (DoacaoPayload only_status) ready)) =
       [(Pool_acquire 0, None), (Conn_cursor (0, 1), None),
        (Cursor_execute (0, 1) obter_doacao_query [(''id_doacao'', BVal (VInt 7))], None),
        (Cursor_fetchone (0, 1), None), (Cursor_close (0, 1), None), (Pool_release 0 (0, 1), None),
        (Pool_acquire 0, None), (Conn_cursor (0, 7), None),
        (Cursor_execute (0, 7) update_status_query
           [(''status'', BVal (VStr ''entregue'')), (''id_doacao_param'', BVal (VInt 7))], None),
        (Conn_commit (0, 7), None), (Cursor_close (0, 7), None), (Pool_release 0 (0, 7), None),
        (Pool_acquire 0, None), (Conn_cursor (0, 13), None),
        (Cursor_execute (0, 13) obter_doacao_query [(''id_doacao'', BVal (VInt 7))], None),
        (Cursor_fetchone (0, 13), None), (Cursor_close (0, 13), None), (Pool_release 0 (0, 13), None)]"
proof -
  let ?P = "DoacaoPayload only_status"
  have th: "atualizar_query listing_driver (payload_entity ?P) (update_data ?P) =
        ''UPDATE '' @ table_name (payload_entity ?P) @ '' SET ''
        @ join '', '' (map (\<lambda>key. map char_upper key @ '' = :'' @ key) (map fst (update_data ?P)))
        @ '' WHERE '' @ id_column (payload_entity ?P) @ '' = :'' @ atualizar_param (payload_entity ?P)"
    using update_binds_values [where pl = ?P and ident = 7 and s = ready and d = listing_driver
        and cfg = configured]
    by blast
  have q: "''UPDATE '' @ table_name (payload_entity ?P) @ '' SET ''
        @ join '', '' (map (\<lambda>key. map char_upper key @ '' = :'' @ key) (map fst (update_data ?P)))
        @ '' WHERE '' @ id_column (payload_entity ?P) @ '' = :'' @ atualizar_param (payload_entity ?P)
        = update_status_query"
    by code_simp
  have "atualizar_query listing_driver Doacao (update_data ?P) = atualizar_query listing_driver (payload_entity ?P) (update_data ?P)"
    by simp
  also have "\<dots> = update_status_query" using th q by (rule trans)
  finally have a: "atualizar_query listing_driver Doacao (update_data ?P) = update_status_query" .
  have t: "added ready (snd (atualizar listing_driver configured 7 ?P ready)) =
       [(Pool_acquire 0, None), (Conn_cursor (0, 1), None),
        (Cursor_execute (0, 1) obter_doacao_query [(''id_doacao'', BVal (VInt 7))], None),
        (Cursor_fetchone (0, 1), None), (Cursor_close (0, 1), None), (Pool_release 0 (0, 1), None),
        (Pool_acquire 0, None), (Conn_cursor (0, 7), None),
        (Cursor_execute (0, 7) update_status_query
           [(''status'', BVal (VStr ''entregue'')), (''id_doacao_param'', BVal (VInt 7))], None),
        (Conn_commit (0, 7), None), (Cursor_close (0, 7), None), (Pool_release 0 (0, 7), None),
        (Pool_acquire 0, None), (Conn_cursor (0, 13), None),
        (Cursor_execute (0, 13) obter_doacao_query [(''id_doacao'', BVal (VInt 7))], None),
        (Cursor_fetchone (0, 13), None), (Cursor_close (0, 13), None), (Pool_release 0 (0, 13), None)]"
    by code_simp
  from a t show ?thesis by (rule conjI)
qed

end
